theory Spec2Isabelle
  imports Main "HOL-Library.Sublist"
begin

section \<open>The chat turn of \<open>frontend/lib/tools/auto.ts\<close>\<close>

text \<open>
  \<open>autoAnswer\<close> is glue code: it calls a language model, reads the streamed events,
  calls a few helpers and reports to a callback. Everything it does is an effect, so the
  model returns the list of effects in the order the code performs them (the trace),
  together with the way the call ended. The helpers that live in other files
  (\<open>getHistory\<close>, \<open>streamText\<close>, \<open>streamResponse\<close>, the search engine,
  \<open>directlyAnswer\<close>, \<open>getRelatedQuestions\<close>, \<open>saveMessages\<close>, ...) are the fields
  of a record of collaborators: the functions of this file are defined for every
  behaviour of theirs.
\<close>

subsection \<open>Values\<close>

text \<open>
  A thrown or reported error. \<open>TypeError\<close> is what reading a property of \<open>undefined\<close>
  throws; \<open>Err s\<close> is any other error value, named by its message;
  \<open>Error_String e\<close> is \<open>new Error(String(e))\<close>.
\<close>

datatype error = TypeError | Err string | Error_String error

text \<open>The members of \<open>SearchCategory\<close> the code names, and any other.\<close>

datatype SearchCategory = Cat_ALL | Cat_IMAGES | Cat_VIDEOS | Cat_WEB_PAGE | Cat_other string

datatype TextSource = TextSource string

datatype VideoSource = VideoSource string

text \<open>
  Of an \<open>ImageSource\<close> the code reads the field \<open>image\<close> only, the address of the
  image: it is \<open>image_url\<close> here.
\<close>

record ImageSource =
  image_title :: string
  image_url :: string

text \<open>Of a stored message the code reads \<open>content\<close> and the optional \<open>attachments\<close>.\<close>

record StoreMessage =
  role :: string
  content :: string
  attachments :: "string list option"

datatype ContentPart = TextPart string | ImagePart string

record CoreUserMessage =
  msg_role :: string
  msg_content :: "ContentPart list"

text \<open>
  The objects handed to \<open>JSON.stringify\<close> and to \<open>streamResponse\<close>: keys with values.
  \<open>JSON_stringify obj\<close> stands for the string \<open>JSON.stringify(obj)\<close>; \<open>Null\<close> is
  \<open>null\<close>.
\<close>

datatype json_value =
    JString string
  | JBool bool
  | JError error
  | JTexts "TextSource list"
  | JImages "ImageSource list"
  | JVideos "VideoSource list"

type_synonym json_object = "(string \<times> json_value) list"

datatype stream_arg = Null | JSON_stringify json_object

text \<open>
  The two tools of the \<open>streamText\<close> call. \<open>execute\<close> names the function the tool
  runs: \<open>searchRelevantContent(question, userId, source, onStream)\<close>, with the user
  id it captured, or \<open>accessWebPage(url, onStream)\<close>.
\<close>

datatype tool_execute = Exec_searchRelevantContent string | Exec_accessWebPage

record tool =
  description :: string
  parameter :: string
  execute :: tool_execute

record streamText_options =
  opt_model :: string
  opt_system :: string
  opt_messages :: "CoreUserMessage list"
  opt_maxTokens :: nat
  opt_tools :: "(string \<times> tool) list"

text \<open>
  The parts of \<open>result.fullStream\<close>. \<open>Tool_result toolName question texts images\<close>
  carries \<open>delta.toolName\<close>, \<open>delta.args.question\<close>, \<open>delta.result.texts\<close> and
  \<open>delta.result.images\<close>; \<open>Other_part\<close> is every type the switch has no case for.
\<close>

datatype delta =
    Text_delta string
  | Tool_call
  | Tool_result string string "TextSource list" "ImageSource list"
  | Error_part error
  | Other_part

record SearchResults =
  res_texts :: "TextSource list"
  res_images :: "ImageSource list"
  res_videos :: "VideoSource list"

record directlyAnswer_args =
  da_isPro :: bool
  da_source :: SearchCategory
  da_history :: string
  da_profile :: "string option"
  da_llm :: string
  da_query :: string
  da_texts :: "TextSource list"

text \<open>What \<open>directlyAnswer\<close> does with its two callbacks: it calls one of them.\<close>

datatype da_callback = OnMessage string | OnError error

subsection \<open>Effects\<close>

datatype event =
    StreamText streamText_options
  | OnStream stream_arg bool
  | LogError error string
  | StreamResponse json_object
  | Search SearchCategory string
  | DirectlyAnswer directlyAnswer_args
  | GetRelatedQuestions string "TextSource list"
  | IncSearchCount string
  | SaveMessages string "StoreMessage list" string "TextSource list" "ImageSource list"
      "VideoSource list" string

text \<open>
  The collaborators. An awaited helper either returns or throws: \<open>error option\<close> is
  its outcome (\<open>None\<close>: it returned), \<open>error + 'a\<close> its outcome with a value. The
  stream of \<open>streamText\<close> delivers its parts and may then throw. \<open>directlyAnswer\<close>
  and \<open>getRelatedQuestions\<close> call their callbacks in the order given and then return
  or throw. A search returns a promise: when it fails, it fails where the promise is
  awaited. The helpers that only compute (\<open>getHistory\<close>, \<open>getMaxOutputToken\<close>,
  \<open>getLLM\<close>, \<open>extractAllImageUrls\<close>, \<open>replaceImageUrl\<close>) return; so do
  \<open>logError\<close>, \<open>console.log\<close>, \<open>JSON.stringify\<close> and the callback \<open>onStream\<close>.
  What a collaborator does with the callback it is handed (\<open>streamResponse\<close>, the two
  tools) is its own business and is not part of the trace: the trace has the call of
  \<open>streamResponse\<close> with its object.
\<close>

record collaborators =
  AutoAnswerPrompt :: string
  getHistory :: "bool \<Rightarrow> StoreMessage list \<Rightarrow> string"
  getMaxOutputToken :: "bool \<Rightarrow> nat"
  getLLM :: "string \<Rightarrow> string"
  extractAllImageUrls :: "string \<Rightarrow> string list"
  replaceImageUrl :: "string \<Rightarrow> string list \<Rightarrow> string"
  streamText :: "streamText_options \<Rightarrow> error + (delta list \<times> error option)"
  streamResponse :: "json_object \<Rightarrow> error option"
  search :: "SearchCategory \<Rightarrow> string \<Rightarrow> error + SearchResults"
  directlyAnswer :: "directlyAnswer_args \<Rightarrow> da_callback list \<times> error option"
  getRelatedQuestions :: "string \<Rightarrow> TextSource list \<Rightarrow> string list \<times> error option"
  saveMessages :: "string \<Rightarrow> StoreMessage list \<Rightarrow> string \<Rightarrow> TextSource list \<Rightarrow>
      ImageSource list \<Rightarrow> VideoSource list \<Rightarrow> string \<Rightarrow> error option"

text \<open>
  A computation: the effects it performed, and either the error it threw (\<open>Inl\<close>) or
  its value.
\<close>

type_synonym 'a io = "event list \<times> (error + 'a)"

definition io_return :: "'a \<Rightarrow> 'a io" where
  "io_return x = ([], Inr x)"

definition io_throw :: "error \<Rightarrow> 'a io" where
  "io_throw e = ([], Inl e)"

definition io_emit :: "event \<Rightarrow> unit io" where
  "io_emit ev = ([ev], Inr ())"

definition io_lift :: "event list \<times> 'a \<Rightarrow> 'a io" where
  "io_lift p = (fst p, Inr (snd p))"

definition io_bind :: "'a io \<Rightarrow> ('a \<Rightarrow> 'b io) \<Rightarrow> 'b io" where
  "io_bind m f =
     (case snd m of
        Inl e \<Rightarrow> (fst m, Inl e)
      | Inr x \<Rightarrow> (fst m @ fst (f x), snd (f x)))"

text \<open>\<open>await\<close> of a promise that was settled with the given outcome.\<close>

definition await :: "error + 'a \<Rightarrow> 'a io" where
  "await p = (case p of Inl e \<Rightarrow> io_throw e | Inr x \<Rightarrow> io_return x)"

definition await_unit :: "error option \<Rightarrow> unit io" where
  "await_unit p = (case p of Some e \<Rightarrow> io_throw e | None \<Rightarrow> io_return ())"

text \<open>
  \<open>onStream?.(arg, done)\<close>: the call happens when a callback was supplied. A call with
  one argument leaves \<open>done\<close> undefined, which is \<open>False\<close> here.
\<close>

definition call_onStream :: "bool \<Rightarrow> stream_arg \<Rightarrow> bool \<Rightarrow> event list" where
  "call_onStream onStream arg fin = (if onStream then [OnStream arg fin] else [])"

definition call_streamResponse :: "collaborators \<Rightarrow> json_object \<Rightarrow> unit io" where
  "call_streamResponse env obj =
     io_bind (io_emit (StreamResponse obj)) (\<lambda>_. await_unit (streamResponse env obj))"

subsection \<open>\<open>util.format\<close>\<close>

text \<open>
  Node's \<open>util.format\<close> on a template and string arguments: \<open>%s\<close> takes the next
  argument, \<open>%%\<close> is a percent sign, and the arguments left over are appended, each
  after a space. An argument that is \<open>undefined\<close> prints as \<open>undefined\<close>. The other
  specifiers (\<open>%d\<close>, \<open>%i\<close>, \<open>%f\<close>, \<open>%j\<close>, \<open>%o\<close>, \<open>%O\<close>, \<open>%c\<close>) are not modelled:
  \<open>only_s_specifiers\<close> says that a template has none of them.
\<close>

definition String :: "string option \<Rightarrow> string" where
  "String a = (case a of None \<Rightarrow> ''undefined'' | Some s \<Rightarrow> s)"

fun util_format :: "string \<Rightarrow> string option list \<Rightarrow> string" where
  "util_format [] args = concat (map (\<lambda>a. CHR '' '' # String a) args)"
| "util_format [c] args = c # util_format [] args"
| "util_format (c # d # cs) args =
     (if c = CHR ''%'' \<and> d = CHR ''s'' \<and> args \<noteq> [] then String (hd args) @ util_format cs (tl args)
      else if c = CHR ''%'' \<and> d = CHR ''%'' then CHR ''%'' # util_format cs args
      else c # util_format (d # cs) args)"

fun only_s_specifiers :: "string \<Rightarrow> bool" where
  "only_s_specifiers [] = True"
| "only_s_specifiers [c] = True"
| "only_s_specifiers (c # d # cs) =
     (if c = CHR ''%'' then (d = CHR ''s'' \<or> d = CHR ''%'') \<and> only_s_specifiers cs
      else only_s_specifiers (d # cs))"

subsection \<open>\<open>createUserMessages\<close> and \<open>attachmentsToParts\<close>\<close>

fun attachmentsToParts :: "string list \<Rightarrow> ContentPart list" where
  "attachmentsToParts [] = []"
| "attachmentsToParts (attachment # rest) = ImagePart attachment # attachmentsToParts rest"

definition createUserMessages :: "collaborators \<Rightarrow> string \<Rightarrow> string list \<Rightarrow> CoreUserMessage list" where
  "createUserMessages env query atts =
     (let atts' = (if length atts = 0 then extractAllImageUrls env query else atts);
          text = (if length atts = 0 \<and> 0 < length atts' then replaceImageUrl env query atts'
                  else query)
      in [\<lparr>msg_role = ''user'', msg_content = TextPart text # attachmentsToParts atts'\<rparr>])"

subsection \<open>The mutable variables of \<open>autoAnswer\<close>\<close>

text \<open>
  The \<open>let\<close> variables of the function body, and the parameter \<open>source\<close>, which the
  loop assigns to.
\<close>

record vars =
  texts :: "TextSource list"
  images :: "ImageSource list"
  videos :: "VideoSource list"
  source :: SearchCategory
  hasAnswer :: bool
  fullAnswer :: string
  rewriteQuery :: string
  toolCallCount :: nat
  hasError :: bool
  fullRelated :: string

definition initial_vars :: "string \<Rightarrow> SearchCategory \<Rightarrow> vars" where
  "initial_vars query src =
     \<lparr>texts = [], images = [], videos = [], source = src, hasAnswer = False,
      fullAnswer = [], rewriteQuery = query, toolCallCount = 0, hasError = False,
      fullRelated = []\<rparr>"

subsection \<open>The loop over the stream (lines 78 to 122)\<close>

text \<open>
  One round of the \<open>switch\<close>. Each \<open>break\<close> leaves the switch, not the loop: after
  an \<open>error\<close> part the loop goes on with the next part.
\<close>

fun on_delta :: "bool \<Rightarrow> vars \<Rightarrow> delta \<Rightarrow> event list \<times> vars" where
  "on_delta onStream s (Text_delta textDelta) =
     (if textDelta \<noteq> []
      then ((if \<not> hasAnswer s
             then call_onStream onStream (JSON_stringify [(''status'', JString ''Answering ...'')]) False
             else [])
            @ call_onStream onStream (JSON_stringify [(''answer'', JString textDelta)]) False,
            s\<lparr>hasAnswer := True, fullAnswer := fullAnswer s @ textDelta\<rparr>)
      else ([], s))"
| "on_delta onStream s Tool_call =
     (call_onStream onStream (JSON_stringify [(''status'', JString ''Searching ...'')]) False,
      s\<lparr>toolCallCount := toolCallCount s + 1\<rparr>)"
| "on_delta onStream s (Tool_result toolName question result_texts result_images) =
     (if toolName = ''getInformation''
      then ([], s\<lparr>texts := texts s @ result_texts, images := images s @ result_images,
                  rewriteQuery := question\<rparr>)
      else if toolName = ''accessWebPage''
      then ([], s\<lparr>texts := texts s @ result_texts, source := Cat_WEB_PAGE\<rparr>)
      else ([], s))"
| "on_delta onStream s (Error_part e) =
     (call_onStream onStream (JSON_stringify [(''error'', JError e)]) False
      @ call_onStream onStream Null True
      @ [LogError (Error_String e) ''llm-auto-openai''],
      s\<lparr>hasError := True\<rparr>)"
| "on_delta onStream s Other_part = ([], s)"

fun for_await :: "bool \<Rightarrow> vars \<Rightarrow> delta list \<Rightarrow> event list \<times> vars" where
  "for_await onStream s [] = ([], s)"
| "for_await onStream s (d # ds) =
     (fst (on_delta onStream s d) @ fst (for_await onStream (snd (on_delta onStream s d)) ds),
      snd (for_await onStream (snd (on_delta onStream s d)) ds))"

subsection \<open>The callbacks given to \<open>directlyAnswer\<close> and \<open>getRelatedQuestions\<close>\<close>

fun answer_callbacks :: "bool \<Rightarrow> vars \<Rightarrow> da_callback list \<Rightarrow> event list \<times> vars" where
  "answer_callbacks onStream s [] = ([], s)"
| "answer_callbacks onStream s (OnMessage msg # cs) =
     (call_onStream onStream (JSON_stringify [(''answer'', JString msg)]) False
      @ fst (answer_callbacks onStream (s\<lparr>fullAnswer := fullAnswer s @ msg\<rparr>) cs),
      snd (answer_callbacks onStream (s\<lparr>fullAnswer := fullAnswer s @ msg\<rparr>) cs))"
| "answer_callbacks onStream s (OnError errorMsg # cs) =
     (call_onStream onStream (JSON_stringify [(''error'', JError errorMsg)]) False
      @ call_onStream onStream Null True
      @ fst (answer_callbacks onStream (s\<lparr>hasError := True\<rparr>) cs),
      snd (answer_callbacks onStream (s\<lparr>hasError := True\<rparr>) cs))"

fun related_callbacks :: "bool \<Rightarrow> vars \<Rightarrow> string list \<Rightarrow> event list \<times> vars" where
  "related_callbacks onStream s [] = ([], s)"
| "related_callbacks onStream s (msg # ms) =
     (call_onStream onStream (JSON_stringify [(''related'', JString msg)]) False
      @ fst (related_callbacks onStream (s\<lparr>fullRelated := fullRelated s @ msg\<rparr>) ms),
      snd (related_callbacks onStream (s\<lparr>fullRelated := fullRelated s @ msg\<rparr>) ms))"

definition call_directlyAnswer ::
  "collaborators \<Rightarrow> bool \<Rightarrow> directlyAnswer_args \<Rightarrow> vars \<Rightarrow> vars io" where
  "call_directlyAnswer env onStream args s =
     io_bind (io_emit (DirectlyAnswer args)) (\<lambda>_.
     io_bind (io_lift (answer_callbacks onStream s (fst (directlyAnswer env args)))) (\<lambda>s'.
     io_bind (await_unit (snd (directlyAnswer env args))) (\<lambda>_.
     io_return s')))"

definition call_getRelatedQuestions ::
  "collaborators \<Rightarrow> bool \<Rightarrow> string \<Rightarrow> vars \<Rightarrow> vars io" where
  "call_getRelatedQuestions env onStream query s =
     io_bind (io_emit (GetRelatedQuestions query (texts s))) (\<lambda>_.
     io_bind (io_lift (related_callbacks onStream s (fst (getRelatedQuestions env query (texts s))))) (\<lambda>s'.
     io_bind (await_unit (snd (getRelatedQuestions env query (texts s)))) (\<lambda>_.
     io_return s')))"

subsection \<open>After the stream (lines 124 to 193)\<close>

text \<open>
  The branch of \<open>toolCallCount > 0\<close> (lines 131 to 179). Both searches are started
  before the answer is written and awaited after the related questions; a search that
  fails throws where it is awaited. The result is \<open>None\<close> when the branch ends in the
  \<open>return\<close> of line 164.
\<close>

definition with_tools ::
  "collaborators \<Rightarrow> bool \<Rightarrow> string option \<Rightarrow> bool \<Rightarrow> string \<Rightarrow> string \<Rightarrow> string \<Rightarrow> vars
     \<Rightarrow> vars option io" where
  "with_tools env isPro profile onStream model query history s =
     io_bind (io_emit (Search Cat_IMAGES (rewriteQuery s))) (\<lambda>_.
     io_bind (io_emit (Search Cat_VIDEOS (rewriteQuery s))) (\<lambda>_.
     io_bind (call_streamResponse env
                [(''status'', JString ''Answering ...''), (''clear'', JBool True)]) (\<lambda>_.
     io_bind (call_directlyAnswer env onStream
                \<lparr>da_isPro = isPro, da_source = source s, da_history = history,
                 da_profile = profile, da_llm = getLLM env model, da_query = query,
                 da_texts = texts s\<rparr>
                (s\<lparr>fullAnswer := []\<rparr>)) (\<lambda>s1.
     if hasError s1 then io_return None
     else
     io_bind (call_streamResponse env
                [(''status'', JString ''Generating related questions ...'')]) (\<lambda>_.
     io_bind (call_getRelatedQuestions env onStream query s1) (\<lambda>s2.
     io_bind (await (map_sum id
                (\<lambda>results. filter (\<lambda>img. prefix ''https'' (image_url img)) (res_images results))
                (search env Cat_IMAGES (rewriteQuery s)))) (\<lambda>fetchedImages.
     io_bind (call_streamResponse env
                [(''images'', JImages (images s2 @ fetchedImages))]) (\<lambda>_.
     io_bind (await (search env Cat_VIDEOS (rewriteQuery s))) (\<lambda>fetchedVideos.
     io_bind (call_streamResponse env
                [(''videos'', JVideos (take 8 (res_videos fetchedVideos)))]) (\<lambda>_.
     io_return (Some (s2\<lparr>images := images s2 @ fetchedImages,
                         videos := take 8 (res_videos fetchedVideos)\<rparr>))))))))))))"

text \<open>The \<open>else\<close> branch (lines 181 to 185).\<close>

definition without_tools :: "collaborators \<Rightarrow> bool \<Rightarrow> string \<Rightarrow> vars \<Rightarrow> vars option io" where
  "without_tools env onStream query s =
     io_bind (call_streamResponse env
                [(''status'', JString ''Generating related questions ...'')]) (\<lambda>_.
     io_bind (call_getRelatedQuestions env onStream query s) (\<lambda>s1.
     io_return (Some s1)))"

text \<open>How a call of \<open>autoAnswer\<close> ended.\<close>

datatype ending =
    Completed
  | Returned_early
  | Caught error

definition call_saveMessages ::
  "collaborators \<Rightarrow> string \<Rightarrow> StoreMessage list \<Rightarrow> vars \<Rightarrow> unit io" where
  "call_saveMessages env userId messages s =
     io_bind (io_emit (SaveMessages userId messages (fullAnswer s) (texts s) (images s)
                         (videos s) (fullRelated s))) (\<lambda>_.
     await_unit (saveMessages env userId messages (fullAnswer s) (texts s) (images s)
                   (videos s) (fullRelated s)))"

text \<open>Lines 124 to 127: with more than one tool call the sources are sent first.\<close>

definition thinking :: "collaborators \<Rightarrow> string \<Rightarrow> vars \<Rightarrow> vars io" where
  "thinking env query s =
     (if 1 < toolCallCount s
      then io_bind (call_streamResponse env
                      [(''sources'', JTexts (texts s)), (''status'', JString ''Thinking ...'')])
                   (\<lambda>_. io_return (s\<lparr>rewriteQuery := query\<rparr>))
      else io_return s)"

text \<open>
  Lines 188 to 193. \<open>incSearchCount\<close> is not awaited and its failure is handled on the
  spot, so it is an effect that cannot throw here.
\<close>

definition persist ::
  "collaborators \<Rightarrow> StoreMessage list \<Rightarrow> string \<Rightarrow> bool \<Rightarrow> vars \<Rightarrow> ending io" where
  "persist env messages userId onStream s =
     io_bind (io_emit (IncSearchCount userId)) (\<lambda>_.
     io_bind (call_saveMessages env userId messages s) (\<lambda>_.
     io_bind (io_lift (call_onStream onStream Null True, ())) (\<lambda>_.
     io_return Completed)))"

definition after_stream ::
  "collaborators \<Rightarrow> StoreMessage list \<Rightarrow> bool \<Rightarrow> string \<Rightarrow> string option \<Rightarrow> bool \<Rightarrow> string
     \<Rightarrow> string \<Rightarrow> string \<Rightarrow> vars \<Rightarrow> ending io" where
  "after_stream env messages isPro userId profile onStream model query history s =
     io_bind (thinking env query s) (\<lambda>s1.
     io_bind (if 0 < toolCallCount s1
              then with_tools env isPro profile onStream model query history s1
              else without_tools env onStream query s1) (\<lambda>r.
     case r of
       None \<Rightarrow> io_return Returned_early
     | Some s2 \<Rightarrow> persist env messages userId onStream s2))"

subsection \<open>\<open>autoAnswer\<close>\<close>

text \<open>
  The options of the \<open>streamText\<close> call (lines 47 to 71), from the last message.
  \<open>temperature\<close> is a constant and is left out.
\<close>

definition streamText_call ::
  "collaborators \<Rightarrow> StoreMessage list \<Rightarrow> bool \<Rightarrow> string \<Rightarrow> string option \<Rightarrow> string
     \<Rightarrow> streamText_options" where
  "streamText_call env messages isPro userId profile model =
     (let atts = (case attachments (last messages) of None \<Rightarrow> [] | Some a \<Rightarrow> a);
          newMessages = drop (length messages - 1) messages;
          query = content (hd newMessages);
          history = getHistory env isPro messages;
          system = util_format (AutoAnswerPrompt env) [profile, Some history];
          userMessages = createUserMessages env query atts;
          maxTokens = getMaxOutputToken env isPro
      in \<lparr>opt_model = getLLM env model, opt_system = system, opt_messages = userMessages,
          opt_maxTokens = maxTokens,
          opt_tools =
            [(''getInformation'',
              \<lparr>description = ''get information from internet to answer user questions.'',
               parameter = ''question'',
               execute = Exec_searchRelevantContent userId\<rparr>),
             (''accessWebPage'',
              \<lparr>description = ''access a webpage or url and return the content.'',
               parameter = ''url'',
               execute = Exec_accessWebPage\<rparr>)]\<rparr>)"

text \<open>
  The body of the \<open>try\<close> block. On an empty list \<open>messages[messages.length - 1]\<close> is
  \<open>undefined\<close> and reading \<open>attachments\<close> of it throws.
\<close>

definition autoAnswer_try ::
  "collaborators \<Rightarrow> StoreMessage list \<Rightarrow> bool \<Rightarrow> string \<Rightarrow> string option \<Rightarrow> bool \<Rightarrow> string
     \<Rightarrow> SearchCategory \<Rightarrow> ending io" where
  "autoAnswer_try env messages isPro userId profile onStream model src =
     (if messages = [] then io_throw TypeError
      else
        let query = content (hd (drop (length messages - 1) messages));
            history = getHistory env isPro messages;
            options = streamText_call env messages isPro userId profile model
        in
        io_bind (io_emit (StreamText options)) (\<lambda>_.
        io_bind (await (streamText env options)) (\<lambda>result.
        io_bind (io_lift (for_await onStream (initial_vars query src) (fst result))) (\<lambda>s.
        io_bind (await_unit (snd result)) (\<lambda>_.
        after_stream env messages isPro userId profile onStream model query history s)))))"

text \<open>
  The whole function: the \<open>catch\<close> block logs the error and calls
  \<open>onStream?.(null, true)\<close>. The result is the trace and \<open>Inr\<close> of the way the call
  ended, or \<open>Inl\<close> of an error thrown to the caller.
\<close>

definition autoAnswer ::
  "collaborators \<Rightarrow> StoreMessage list \<Rightarrow> bool \<Rightarrow> string \<Rightarrow> string option \<Rightarrow> bool \<Rightarrow> string
     \<Rightarrow> SearchCategory \<Rightarrow> ending io" where
  "autoAnswer env messages isPro userId profile onStream model src =
     (case snd (autoAnswer_try env messages isPro userId profile onStream model src) of
        Inr r \<Rightarrow> autoAnswer_try env messages isPro userId profile onStream model src
      | Inl e \<Rightarrow>
          io_bind (io_lift (fst (autoAnswer_try env messages isPro userId profile onStream model src), ())) (\<lambda>_.
          io_bind (io_emit (LogError e ''llm-auto-openai'')) (\<lambda>_.
          io_bind (io_lift (call_onStream onStream Null True, ())) (\<lambda>_.
          io_return (Caught e)))))"

subsection \<open>Words for the properties\<close>

text \<open>
  What a stream of parts amounts to: the number of \<open>tool-call\<close> parts, the text of its
  \<open>text-delta\<close> parts, and the texts and images of the results of the two tools.
\<close>

definition tool_calls :: "delta list \<Rightarrow> nat" where
  "tool_calls ds = length (filter (\<lambda>d. d = Tool_call) ds)"

definition streamed_answer :: "delta list \<Rightarrow> string" where
  "streamed_answer ds =
     concat (map (\<lambda>d. case d of Text_delta textDelta \<Rightarrow> textDelta | _ \<Rightarrow> []) ds)"

definition tool_texts :: "delta list \<Rightarrow> TextSource list" where
  "tool_texts ds =
     concat (map (\<lambda>d. case d of
         Tool_result toolName question result_texts result_images \<Rightarrow>
           if toolName = ''getInformation'' \<or> toolName = ''accessWebPage'' then result_texts
           else []
       | _ \<Rightarrow> []) ds)"

definition tool_images :: "delta list \<Rightarrow> ImageSource list" where
  "tool_images ds =
     concat (map (\<lambda>d. case d of
         Tool_result toolName question result_texts result_images \<Rightarrow>
           if toolName = ''getInformation'' then result_images else []
       | _ \<Rightarrow> []) ds)"

text \<open>What the callbacks of \<open>directlyAnswer\<close> amount to: the text sent, and whether an
  error was reported.\<close>

definition answered :: "da_callback list \<Rightarrow> string" where
  "answered cs = concat (map (\<lambda>c. case c of OnMessage msg \<Rightarrow> msg | OnError e \<Rightarrow> []) cs)"

definition reports_error :: "da_callback list \<Rightarrow> bool" where
  "reports_error cs = list_ex (\<lambda>c. case c of OnMessage msg \<Rightarrow> False | OnError e \<Rightarrow> True) cs"

fun is_SaveMessages :: "event \<Rightarrow> bool" where
  "is_SaveMessages (SaveMessages userId messages answer ts imgs vids related) = True"
| "is_SaveMessages ev = False"

fun is_Search :: "event \<Rightarrow> bool" where
  "is_Search (Search category q) = True"
| "is_Search ev = False"

subsection \<open>Inputs for the examples\<close>

text \<open>
  Collaborators that all return: the model streams the given parts and \<open>directlyAnswer\<close>
  makes the given calls. The search finds two images, one of them not on https, and nine
  videos.
\<close>

definition demo_env :: "delta list \<Rightarrow> da_callback list \<Rightarrow> collaborators" where
  "demo_env ds cs =
     \<lparr>AutoAnswerPrompt = ''Profile: %s. History: %s.'',
      getHistory = (\<lambda>isPro ms. concat (map content ms)),
      getMaxOutputToken = (\<lambda>isPro. if isPro then 4096 else 1024),
      getLLM = (\<lambda>m. m),
      extractAllImageUrls = (\<lambda>q. []),
      replaceImageUrl = (\<lambda>q atts. q),
      streamText = (\<lambda>options. Inr (ds, None)),
      streamResponse = (\<lambda>obj. None),
      search = (\<lambda>category q. Inr
        \<lparr>res_texts = [],
         res_images = [\<lparr>image_title = ''a'', image_url = ''https://a/1.png''\<rparr>,
                       \<lparr>image_title = ''b'', image_url = ''http://b/2.png''\<rparr>],
         res_videos = map VideoSource
           [''v1'', ''v2'', ''v3'', ''v4'', ''v5'', ''v6'', ''v7'', ''v8'', ''v9'']\<rparr>),
      directlyAnswer = (\<lambda>args. (cs, None)),
      getRelatedQuestions = (\<lambda>q ts. ([''What '', ''next?''], None)),
      saveMessages = (\<lambda>userId ms answer ts imgs vids related. None)\<rparr>"

definition demo_message :: StoreMessage where
  "demo_message = \<lparr>role = ''user'', content = ''hello'', attachments = None\<rparr>"

section \<open>Lemmas\<close>

subsection \<open>Computations\<close>

lemma fst_io_bind:
  "fst (io_bind m f) = fst m @ (case snd m of Inl e \<Rightarrow> [] | Inr x \<Rightarrow> fst (f x))"
  by (simp add: io_bind_def split: sum.splits)

lemma snd_io_bind:
  "snd (io_bind m f) = (case snd m of Inl e \<Rightarrow> Inl e | Inr x \<Rightarrow> snd (f x))"
  by (simp add: io_bind_def split: sum.splits)

lemma in_io_bind:
  "ev \<in> set (fst (io_bind m f)) \<longleftrightarrow>
     ev \<in> set (fst m) \<or> (\<exists>x. snd m = Inr x \<and> ev \<in> set (fst (f x)))"
  by (auto simp: fst_io_bind split: sum.splits)

lemma io_bind_eq_Inr:
  "io_bind m f = (t, Inr y) \<longleftrightarrow> (\<exists>t1 x t2. m = (t1, Inr x) \<and> f x = (t2, Inr y) \<and> t = t1 @ t2)"
  by (cases m; cases "snd m") (auto simp: io_bind_def prod_eq_iff)

lemma io_emit_eq_Inr: "io_emit ev = (t, Inr u) \<longleftrightarrow> t = [ev]"
  by (auto simp: io_emit_def)

lemma io_return_eq_Inr: "io_return x = (t, Inr y) \<longleftrightarrow> t = [] \<and> x = y"
  by (auto simp: io_return_def)

lemma io_throw_eq_Inr: "io_throw e = (t, Inr y) \<longleftrightarrow> False"
  by (simp add: io_throw_def)

lemma io_lift_eq_Inr: "io_lift p = (t, Inr y) \<longleftrightarrow> t = fst p \<and> y = snd p"
  by (auto simp: io_lift_def)

lemma await_eq_Inr: "await p = (t, Inr y) \<longleftrightarrow> t = [] \<and> p = Inr y"
  by (auto simp: await_def io_throw_def io_return_def split: sum.splits)

lemma await_unit_eq_Inr: "await_unit p = (t, Inr u) \<longleftrightarrow> t = [] \<and> p = None"
  by (auto simp: await_unit_def io_throw_def io_return_def split: option.splits)

lemmas io_eq_Inr = io_bind_eq_Inr io_emit_eq_Inr io_return_eq_Inr io_throw_eq_Inr io_lift_eq_Inr
  await_eq_Inr await_unit_eq_Inr

lemma io_parts:
  "fst (io_emit ev) = [ev]" "snd (io_emit ev) = Inr ()"
  "fst (io_return x) = []" "snd (io_return x) = Inr x"
  "fst (io_throw e) = []" "snd (io_throw e) = Inl e"
  "fst (io_lift p) = fst p" "snd (io_lift p) = Inr (snd p)"
  "fst (await q) = []" "snd (await q) = q"
  "fst (await_unit r) = []" "snd (await_unit r) = (case r of None \<Rightarrow> Inr () | Some e \<Rightarrow> Inl e)"
  by (simp_all add: io_emit_def io_return_def io_throw_def io_lift_def await_def await_unit_def
      split: sum.splits option.splits)

subsection \<open>The calls of the collaborators\<close>

lemma call_streamResponse_eq_Inr:
  "call_streamResponse env obj = (t, Inr u) \<longleftrightarrow> t = [StreamResponse obj] \<and> streamResponse env obj = None"
  by (auto simp: call_streamResponse_def io_eq_Inr)

lemma call_directlyAnswer_eq_Inr:
  "call_directlyAnswer env cb args s = (t, Inr s') \<longleftrightarrow>
     t = DirectlyAnswer args # fst (answer_callbacks cb s (fst (directlyAnswer env args)))
     \<and> s' = snd (answer_callbacks cb s (fst (directlyAnswer env args)))
     \<and> snd (directlyAnswer env args) = None"
  by (auto simp: call_directlyAnswer_def io_eq_Inr)

lemma call_getRelatedQuestions_eq_Inr:
  "call_getRelatedQuestions env cb query s = (t, Inr s') \<longleftrightarrow>
     t = GetRelatedQuestions query (texts s)
           # fst (related_callbacks cb s (fst (getRelatedQuestions env query (texts s))))
     \<and> s' = snd (related_callbacks cb s (fst (getRelatedQuestions env query (texts s))))
     \<and> snd (getRelatedQuestions env query (texts s)) = None"
  by (auto simp: call_getRelatedQuestions_def io_eq_Inr)

lemma call_saveMessages_eq_Inr:
  "call_saveMessages env userId messages s = (t, Inr u) \<longleftrightarrow>
     t = [SaveMessages userId messages (fullAnswer s) (texts s) (images s) (videos s) (fullRelated s)]
     \<and> saveMessages env userId messages (fullAnswer s) (texts s) (images s) (videos s) (fullRelated s) = None"
  by (auto simp: call_saveMessages_def io_eq_Inr)

lemmas call_eq_Inr = call_streamResponse_eq_Inr call_directlyAnswer_eq_Inr
  call_getRelatedQuestions_eq_Inr call_saveMessages_eq_Inr

lemma call_parts:
  "fst (call_streamResponse env obj) = [StreamResponse obj]"
  "snd (call_streamResponse env obj) = (case streamResponse env obj of None \<Rightarrow> Inr () | Some e \<Rightarrow> Inl e)"
  "fst (call_directlyAnswer env cb args s) =
     DirectlyAnswer args # fst (answer_callbacks cb s (fst (directlyAnswer env args)))"
  "snd (call_directlyAnswer env cb args s) =
     (case snd (directlyAnswer env args) of
        None \<Rightarrow> Inr (snd (answer_callbacks cb s (fst (directlyAnswer env args))))
      | Some e \<Rightarrow> Inl e)"
  "fst (call_getRelatedQuestions env cb query s) =
     GetRelatedQuestions query (texts s)
       # fst (related_callbacks cb s (fst (getRelatedQuestions env query (texts s))))"
  "snd (call_getRelatedQuestions env cb query s) =
     (case snd (getRelatedQuestions env query (texts s)) of
        None \<Rightarrow> Inr (snd (related_callbacks cb s (fst (getRelatedQuestions env query (texts s)))))
      | Some e \<Rightarrow> Inl e)"
  "fst (call_saveMessages env userId messages s) =
     [SaveMessages userId messages (fullAnswer s) (texts s) (images s) (videos s) (fullRelated s)]"
  "snd (call_saveMessages env userId messages s) =
     (case saveMessages env userId messages (fullAnswer s) (texts s) (images s) (videos s)
             (fullRelated s) of
        None \<Rightarrow> Inr () | Some e \<Rightarrow> Inl e)"
  by (simp_all add: call_streamResponse_def call_directlyAnswer_def call_getRelatedQuestions_def
      call_saveMessages_def fst_io_bind snd_io_bind io_parts split: option.splits)

subsection \<open>The variables after the loop and after the callbacks\<close>

lemma on_delta_fields:
  "toolCallCount (snd (on_delta cb s d)) = toolCallCount s + tool_calls [d]"
  "fullAnswer (snd (on_delta cb s d)) = fullAnswer s @ streamed_answer [d]"
  "texts (snd (on_delta cb s d)) = texts s @ tool_texts [d]"
  "images (snd (on_delta cb s d)) = images s @ tool_images [d]"
  "videos (snd (on_delta cb s d)) = videos s"
  "fullRelated (snd (on_delta cb s d)) = fullRelated s"
  "hasError (snd (on_delta cb s d)) \<longleftrightarrow> hasError s \<or> (\<exists>e. d = Error_part e)"
  by (cases d; simp add: tool_calls_def streamed_answer_def tool_texts_def tool_images_def)+

lemma words_Cons:
  "tool_calls (d # ds) = tool_calls [d] + tool_calls ds"
  "streamed_answer (d # ds) = streamed_answer [d] @ streamed_answer ds"
  "tool_texts (d # ds) = tool_texts [d] @ tool_texts ds"
  "tool_images (d # ds) = tool_images [d] @ tool_images ds"
  by (simp_all add: tool_calls_def streamed_answer_def tool_texts_def tool_images_def)

lemma for_await_toolCallCount:
  "toolCallCount (snd (for_await cb s ds)) = toolCallCount s + tool_calls ds"
proof (induction ds arbitrary: s)
  case Nil
  show ?case by (simp add: tool_calls_def)
next
  case (Cons d ds)
  show ?case by (simp add: Cons.IH on_delta_fields words_Cons [of d ds])
qed

lemma for_await_fullAnswer:
  "fullAnswer (snd (for_await cb s ds)) = fullAnswer s @ streamed_answer ds"
proof (induction ds arbitrary: s)
  case Nil
  show ?case by (simp add: streamed_answer_def)
next
  case (Cons d ds)
  show ?case by (simp add: Cons.IH on_delta_fields words_Cons [of d ds])
qed

lemma for_await_texts: "texts (snd (for_await cb s ds)) = texts s @ tool_texts ds"
proof (induction ds arbitrary: s)
  case Nil
  show ?case by (simp add: tool_texts_def)
next
  case (Cons d ds)
  show ?case by (simp add: Cons.IH on_delta_fields words_Cons [of d ds])
qed

lemma for_await_images: "images (snd (for_await cb s ds)) = images s @ tool_images ds"
proof (induction ds arbitrary: s)
  case Nil
  show ?case by (simp add: tool_images_def)
next
  case (Cons d ds)
  show ?case by (simp add: Cons.IH on_delta_fields words_Cons [of d ds])
qed

lemma for_await_untouched:
  "videos (snd (for_await cb s ds)) = videos s"
  "fullRelated (snd (for_await cb s ds)) = fullRelated s"
  by (induction ds arbitrary: s) (simp_all add: on_delta_fields)

lemma for_await_hasError:
  "hasError (snd (for_await cb s ds)) \<longleftrightarrow> hasError s \<or> (\<exists>e. Error_part e \<in> set ds)"
  by (induction ds arbitrary: s) (auto simp: on_delta_fields)

lemmas for_await_fields = for_await_toolCallCount for_await_fullAnswer for_await_texts
  for_await_images for_await_untouched for_await_hasError

lemma tool_calls_pos: "0 < tool_calls ds \<longleftrightarrow> Tool_call \<in> set ds"
  by (induction ds) (auto simp: tool_calls_def)

lemma snd_related_callbacks:
  "snd (related_callbacks cb s ms) = s\<lparr>fullRelated := fullRelated s @ concat ms\<rparr>"
  by (induction ms arbitrary: s) simp_all

lemma snd_answer_callbacks:
  "snd (answer_callbacks cb s cs) =
     s\<lparr>fullAnswer := fullAnswer s @ answered cs, hasError := hasError s \<or> reports_error cs\<rparr>"
proof (induction cs arbitrary: s)
  case Nil
  show ?case by (simp add: answered_def reports_error_def)
next
  case (Cons c cs)
  show ?case by (cases c) (simp_all add: Cons.IH answered_def reports_error_def)
qed

lemma hd_drop_last:
  "messages \<noteq> [] \<Longrightarrow> hd (drop (length messages - 1) messages) = last messages"
  "messages \<noteq> [] \<Longrightarrow> hd (drop (length messages - Suc 0) messages) = last messages"
  by (simp_all add: hd_drop_conv_nth last_conv_nth)

subsection \<open>The effects of the loop and of the callbacks\<close>

lemma for_await_from_delta:
  "ev \<in> set (fst (for_await cb s ds)) \<Longrightarrow> \<exists>d s'. d \<in> set ds \<and> ev \<in> set (fst (on_delta cb s' d))"
proof (induction ds arbitrary: s)
  case Nil
  then show ?case by simp
next
  case (Cons d ds)
  from Cons.prems have "ev \<in> set (fst (on_delta cb s d))
      \<or> ev \<in> set (fst (for_await cb (snd (on_delta cb s d)) ds))"
    by simp
  then show ?case
  proof
    assume "ev \<in> set (fst (on_delta cb s d))"
    then show ?thesis by (intro exI [of _ d] exI [of _ s]) simp
  next
    assume "ev \<in> set (fst (for_await cb (snd (on_delta cb s d)) ds))"
    from Cons.IH [OF this] obtain d' s' where "d' \<in> set ds" "ev \<in> set (fst (on_delta cb s' d'))"
      by blast
    then show ?thesis by (intro exI [of _ d'] exI [of _ s']) simp
  qed
qed

lemma in_on_delta:
  assumes "ev \<in> set (fst (on_delta cb s d))"
  obtains
    (answering) "cb" "ev = OnStream (JSON_stringify [(''status'', JString ''Answering ...'')]) False"
  | (answer) x where "cb" "d = Text_delta x"
      "ev = OnStream (JSON_stringify [(''answer'', JString x)]) False"
  | (searching) "cb" "ev = OnStream (JSON_stringify [(''status'', JString ''Searching ...'')]) False"
  | (error) e where "cb" "d = Error_part e"
      "ev = OnStream (JSON_stringify [(''error'', JError e)]) False"
  | (finished) e where "cb" "d = Error_part e" "ev = OnStream Null True"
  | (logged) e where "d = Error_part e" "ev = LogError (Error_String e) ''llm-auto-openai''"
  using assms by (cases d) (auto simp: call_onStream_def split: if_splits)

lemma in_for_await:
  assumes "ev \<in> set (fst (for_await cb s ds))"
  obtains
    (answering) "cb" "ev = OnStream (JSON_stringify [(''status'', JString ''Answering ...'')]) False"
  | (answer) x where "cb" "Text_delta x \<in> set ds"
      "ev = OnStream (JSON_stringify [(''answer'', JString x)]) False"
  | (searching) "cb" "ev = OnStream (JSON_stringify [(''status'', JString ''Searching ...'')]) False"
  | (error) e where "cb" "Error_part e \<in> set ds"
      "ev = OnStream (JSON_stringify [(''error'', JError e)]) False"
  | (finished) e where "cb" "Error_part e \<in> set ds" "ev = OnStream Null True"
  | (logged) e where "Error_part e \<in> set ds" "ev = LogError (Error_String e) ''llm-auto-openai''"
proof -
  from for_await_from_delta [OF assms] obtain d s'
    where d: "d \<in> set ds" and ev: "ev \<in> set (fst (on_delta cb s' d))"
    by blast
  from ev show thesis
  proof (cases rule: in_on_delta)
    case answering
    then show ?thesis by (rule that(1))
  next
    case (answer x)
    with d show ?thesis by (intro that(2) [of x]) simp_all
  next
    case searching
    then show ?thesis by (rule that(3))
  next
    case (error e)
    with d show ?thesis by (intro that(4) [of e]) simp_all
  next
    case (finished e)
    with d show ?thesis by (intro that(5) [of e]) simp_all
  next
    case (logged e)
    with d show ?thesis by (intro that(6) [of e]) simp_all
  qed
qed

lemma in_answer_callbacks:
  assumes "ev \<in> set (fst (answer_callbacks cb s cs))"
  obtains
    (answer) msg where "cb" "OnMessage msg \<in> set cs"
      "ev = OnStream (JSON_stringify [(''answer'', JString msg)]) False"
  | (error) e where "cb" "OnError e \<in> set cs"
      "ev = OnStream (JSON_stringify [(''error'', JError e)]) False"
  | (finished) e where "cb" "OnError e \<in> set cs" "ev = OnStream Null True"
proof -
  from assms have "cb \<and> ((\<exists>msg. OnMessage msg \<in> set cs
          \<and> ev = OnStream (JSON_stringify [(''answer'', JString msg)]) False)
      \<or> (\<exists>e. OnError e \<in> set cs
          \<and> (ev = OnStream (JSON_stringify [(''error'', JError e)]) False \<or> ev = OnStream Null True)))"
  proof (induction cb s cs rule: answer_callbacks.induct)
    case (1 onStream s)
    then show ?case by simp
  next
    case (2 onStream s msg cs)
    then show ?case by (fastforce simp: call_onStream_def split: if_splits)
  next
    case (3 onStream s errorMsg cs)
    then show ?case by (fastforce simp: call_onStream_def split: if_splits)
  qed
  then show thesis using that by blast
qed

lemma in_related_callbacks:
  assumes "ev \<in> set (fst (related_callbacks cb s ms))"
  obtains msg where "cb" "msg \<in> set ms"
    "ev = OnStream (JSON_stringify [(''related'', JString msg)]) False"
proof -
  from assms have "cb \<and> (\<exists>msg. msg \<in> set ms
      \<and> ev = OnStream (JSON_stringify [(''related'', JString msg)]) False)"
    by (induction ms arbitrary: s) (fastforce simp: call_onStream_def split: if_splits)+
  then show thesis using that by blast
qed

text \<open>The other direction: what was reported is in the trace.\<close>

lemma for_await_reports:
  assumes "cb" "Error_part e \<in> set ds"
  shows "OnStream (JSON_stringify [(''error'', JError e)]) False \<in> set (fst (for_await cb s ds))"
    and "OnStream Null True \<in> set (fst (for_await cb s ds))"
    and "LogError (Error_String e) ''llm-auto-openai'' \<in> set (fst (for_await cb s ds))"
  using assms by (induction ds arbitrary: s) (auto simp: call_onStream_def)

lemma answer_callbacks_reports:
  assumes "cb" "OnError e \<in> set cs"
  shows "OnStream (JSON_stringify [(''error'', JError e)]) False \<in> set (fst (answer_callbacks cb s cs))"
    and "OnStream Null True \<in> set (fst (answer_callbacks cb s cs))"
  using assms
  by (induction cb s cs rule: answer_callbacks.induct) (auto simp: call_onStream_def)

lemma reports_error_iff: "reports_error cs \<longleftrightarrow> (\<exists>e. OnError e \<in> set cs)"
  by (induction cs) (auto simp: reports_error_def split: da_callback.splits)

subsection \<open>The two branches\<close>

lemma with_tools_Some:
  assumes "with_tools env isPro profile cb model query history s = (t, Inr (Some s'))"
  defines "args \<equiv> \<lparr>da_isPro = isPro, da_source = source s, da_history = history,
             da_profile = profile, da_llm = getLLM env model, da_query = query,
             da_texts = texts s\<rparr>"
  shows "\<exists>ir vr.
     search env Cat_IMAGES (rewriteQuery s) = Inr ir \<and>
     search env Cat_VIDEOS (rewriteQuery s) = Inr vr \<and>
     \<not> hasError s \<and> \<not> reports_error (fst (directlyAnswer env args)) \<and>
     fullAnswer s' = answered (fst (directlyAnswer env args)) \<and>
     texts s' = texts s \<and>
     images s' = images s @ filter (\<lambda>img. prefix ''https'' (image_url img)) (res_images ir) \<and>
     videos s' = take 8 (res_videos vr) \<and>
     fullRelated s' = fullRelated s @ concat (fst (getRelatedQuestions env query (texts s))) \<and>
     t = [Search Cat_IMAGES (rewriteQuery s), Search Cat_VIDEOS (rewriteQuery s),
          StreamResponse [(''status'', JString ''Answering ...''), (''clear'', JBool True)],
          DirectlyAnswer args]
         @ fst (answer_callbacks cb (s\<lparr>fullAnswer := []\<rparr>) (fst (directlyAnswer env args)))
         @ [StreamResponse [(''status'', JString ''Generating related questions ...'')],
            GetRelatedQuestions query (texts s)]
         @ fst (related_callbacks cb
                 (snd (answer_callbacks cb (s\<lparr>fullAnswer := []\<rparr>) (fst (directlyAnswer env args))))
                 (fst (getRelatedQuestions env query (texts s))))
         @ [StreamResponse [(''images'', JImages (images s'))],
            StreamResponse [(''videos'', JVideos (videos s'))]]"
  using assms(1) unfolding args_def
  apply (simp add: with_tools_def io_eq_Inr call_eq_Inr split: if_splits)
  apply (auto simp: map_sum_def snd_answer_callbacks snd_related_callbacks split: sum.splits)
  done

lemma with_tools_None:
  assumes "with_tools env isPro profile cb model query history s = (t, Inr None)"
  defines "args \<equiv> \<lparr>da_isPro = isPro, da_source = source s, da_history = history,
             da_profile = profile, da_llm = getLLM env model, da_query = query,
             da_texts = texts s\<rparr>"
  shows "(hasError s \<or> reports_error (fst (directlyAnswer env args))) \<and>
     t = [Search Cat_IMAGES (rewriteQuery s), Search Cat_VIDEOS (rewriteQuery s),
          StreamResponse [(''status'', JString ''Answering ...''), (''clear'', JBool True)],
          DirectlyAnswer args]
         @ fst (answer_callbacks cb (s\<lparr>fullAnswer := []\<rparr>) (fst (directlyAnswer env args)))"
  using assms(1) unfolding args_def
  apply (simp add: with_tools_def io_eq_Inr call_eq_Inr split: if_splits)
  apply (auto simp: map_sum_def snd_answer_callbacks snd_related_callbacks split: sum.splits)
  done

lemma without_tools_eq_Inr:
  "without_tools env cb query s = (t, Inr r) \<longleftrightarrow>
     t = [StreamResponse [(''status'', JString ''Generating related questions ...'')],
          GetRelatedQuestions query (texts s)]
         @ fst (related_callbacks cb s (fst (getRelatedQuestions env query (texts s))))
     \<and> r = Some (s\<lparr>fullRelated := fullRelated s @ concat (fst (getRelatedQuestions env query (texts s)))\<rparr>)
     \<and> streamResponse env [(''status'', JString ''Generating related questions ...'')] = None
     \<and> snd (getRelatedQuestions env query (texts s)) = None"
  by (auto simp: without_tools_def io_eq_Inr call_eq_Inr snd_related_callbacks)

lemma in_with_tools:
  assumes "ev \<in> set (fst (with_tools env isPro profile cb model query history s))"
  defines "args \<equiv> \<lparr>da_isPro = isPro, da_source = source s, da_history = history,
             da_profile = profile, da_llm = getLLM env model, da_query = query,
             da_texts = texts s\<rparr>"
  obtains
    (search_images) "ev = Search Cat_IMAGES (rewriteQuery s)"
  | (search_videos) "ev = Search Cat_VIDEOS (rewriteQuery s)"
  | (clear) "ev = StreamResponse [(''status'', JString ''Answering ...''), (''clear'', JBool True)]"
  | (directlyAnswer)
      "streamResponse env [(''status'', JString ''Answering ...''), (''clear'', JBool True)] = None"
      "ev = DirectlyAnswer args"
  | (answer_callback)
      "ev \<in> set (fst (answer_callbacks cb (s\<lparr>fullAnswer := []\<rparr>) (fst (directlyAnswer env args))))"
  | (generating) "ev = StreamResponse [(''status'', JString ''Generating related questions ...'')]"
  | (related) "ev = GetRelatedQuestions query (texts s)"
  | (related_callback) s1 where
      "ev \<in> set (fst (related_callbacks cb s1 (fst (getRelatedQuestions env query (texts s)))))"
  | (images) ir where "search env Cat_IMAGES (rewriteQuery s) = Inr ir"
      "ev = StreamResponse [(''images'', JImages (images s
              @ filter (\<lambda>img. prefix ''https'' (image_url img)) (res_images ir)))]"
  | (videos) vr where "search env Cat_VIDEOS (rewriteQuery s) = Inr vr"
      "ev = StreamResponse [(''videos'', JVideos (take 8 (res_videos vr)))]"
proof -
  from assms(1) have
    "ev = Search Cat_IMAGES (rewriteQuery s)
     \<or> ev = Search Cat_VIDEOS (rewriteQuery s)
     \<or> ev = StreamResponse [(''status'', JString ''Answering ...''), (''clear'', JBool True)]
     \<or> (streamResponse env [(''status'', JString ''Answering ...''), (''clear'', JBool True)] = None
         \<and> ev = DirectlyAnswer args)
     \<or> ev \<in> set (fst (answer_callbacks cb (s\<lparr>fullAnswer := []\<rparr>) (fst (directlyAnswer env args))))
     \<or> ev = StreamResponse [(''status'', JString ''Generating related questions ...'')]
     \<or> ev = GetRelatedQuestions query (texts s)
     \<or> (\<exists>s1. ev \<in> set (fst (related_callbacks cb s1 (fst (getRelatedQuestions env query (texts s))))))
     \<or> (\<exists>ir. search env Cat_IMAGES (rewriteQuery s) = Inr ir \<and>
           ev = StreamResponse [(''images'', JImages (images s
              @ filter (\<lambda>img. prefix ''https'' (image_url img)) (res_images ir)))])
     \<or> (\<exists>vr. search env Cat_VIDEOS (rewriteQuery s) = Inr vr \<and>
           ev = StreamResponse [(''videos'', JVideos (take 8 (res_videos vr)))])"
    unfolding args_def with_tools_def
    apply (simp add: in_io_bind io_parts call_parts snd_answer_callbacks snd_related_callbacks
        map_sum_def split: option.splits if_splits sum.splits)
    apply (elim disjE conjE exE; (simp; fail)?)
          apply (blast | fastforce)+
    done
  then show thesis using that by blast
qed

lemma in_without_tools:
  assumes "ev \<in> set (fst (without_tools env cb query s))"
  obtains
    (generating) "ev = StreamResponse [(''status'', JString ''Generating related questions ...'')]"
  | (related) "ev = GetRelatedQuestions query (texts s)"
  | (related_callback)
      "ev \<in> set (fst (related_callbacks cb s (fst (getRelatedQuestions env query (texts s)))))"
  using assms
  by (auto simp: without_tools_def in_io_bind io_parts call_parts split: option.splits)

lemma in_persist:
  assumes "ev \<in> set (fst (persist env messages userId cb s))"
  obtains
    (increment) "ev = IncSearchCount userId"
  | (save) "ev = SaveMessages userId messages (fullAnswer s) (texts s) (images s) (videos s)
                  (fullRelated s)"
  | (finished) "cb" "ev = OnStream Null True"
  using assms
  by (auto simp: persist_def in_io_bind io_parts call_parts call_onStream_def
      split: option.splits if_splits)

lemma snd_thinking:
  "snd (thinking env query s) = Inr s1 \<Longrightarrow>
     s1 = (if 1 < toolCallCount s then s\<lparr>rewriteQuery := query\<rparr> else s)"
  by (auto simp: thinking_def snd_io_bind io_parts call_parts split: if_splits option.splits)

lemma fst_thinking:
  "fst (thinking env query s) =
     (if 1 < toolCallCount s
      then [StreamResponse [(''sources'', JTexts (texts s)), (''status'', JString ''Thinking ...'')]]
      else [])"
  by (auto simp: thinking_def fst_io_bind io_parts call_parts split: if_splits option.splits)

lemma in_after_stream:
  assumes "ev \<in> set (fst (after_stream env messages isPro userId profile cb model query history s))"
  defines "s1 \<equiv> (if 1 < toolCallCount s then s\<lparr>rewriteQuery := query\<rparr> else s)"
  defines "branch \<equiv> (if 0 < toolCallCount s
                      then with_tools env isPro profile cb model query history s1
                      else without_tools env cb query s1)"
  obtains
    (thinking) "1 < toolCallCount s"
      "ev = StreamResponse [(''sources'', JTexts (texts s)), (''status'', JString ''Thinking ...'')]"
  | (branch) "snd (thinking env query s) = Inr s1" "ev \<in> set (fst branch)"
  | (persist) s2 where "snd (thinking env query s) = Inr s1" "snd branch = Inr (Some s2)"
      "ev \<in> set (fst (persist env messages userId cb s2))"
proof -
  from assms(1) have
    "ev \<in> set (fst (thinking env query s))
     \<or> (\<exists>s'. snd (thinking env query s) = Inr s' \<and>
          (ev \<in> set (fst (if 0 < toolCallCount s'
                           then with_tools env isPro profile cb model query history s'
                           else without_tools env cb query s'))
           \<or> (\<exists>r. snd (if 0 < toolCallCount s'
                           then with_tools env isPro profile cb model query history s'
                           else without_tools env cb query s') = Inr r
                \<and> ev \<in> set (fst (case r of None \<Rightarrow> io_return Returned_early
                                   | Some s2 \<Rightarrow> persist env messages userId cb s2)))))"
    by (simp add: after_stream_def in_io_bind)
  then show thesis
  proof (elim disjE exE conjE)
    assume "ev \<in> set (fst (thinking env query s))"
    then show thesis by (intro thinking) (simp_all add: fst_thinking split: if_splits)
  next
    fix s'
    assume s': "snd (thinking env query s) = Inr s'"
      and ev: "ev \<in> set (fst (if 0 < toolCallCount s'
                           then with_tools env isPro profile cb model query history s'
                           else without_tools env cb query s'))"
    from snd_thinking [OF s'] have "s' = s1" and "toolCallCount s' = toolCallCount s"
      by (simp_all add: s1_def)
    with ev have "ev \<in> set (fst branch)" by (auto simp: branch_def split: if_splits)
    with s' \<open>s' = s1\<close> show thesis by (intro branch) simp_all
  next
    fix s' r
    assume s': "snd (thinking env query s) = Inr s'"
      and r: "snd (if 0 < toolCallCount s'
                   then with_tools env isPro profile cb model query history s'
                   else without_tools env cb query s') = Inr r"
      and ev: "ev \<in> set (fst (case r of None \<Rightarrow> io_return Returned_early
                                   | Some s2 \<Rightarrow> persist env messages userId cb s2))"
    from snd_thinking [OF s'] have "s' = s1" and "toolCallCount s' = toolCallCount s"
      by (simp_all add: s1_def)
    with r have "snd branch = Inr r" by (auto simp: branch_def split: if_splits)
    with ev s' \<open>s' = s1\<close> show thesis by (cases r) (simp_all add: io_parts persist)
  qed
qed

subsection \<open>The whole function\<close>

lemma fst_autoAnswer:
  "fst (autoAnswer env messages isPro userId profile cb model src) =
     fst (autoAnswer_try env messages isPro userId profile cb model src)
     @ (case snd (autoAnswer_try env messages isPro userId profile cb model src) of
          Inl e \<Rightarrow> LogError e ''llm-auto-openai'' # call_onStream cb Null True
        | Inr r \<Rightarrow> [])"
  by (simp add: autoAnswer_def io_bind_def io_lift_def io_emit_def io_return_def split: sum.splits)

lemma snd_autoAnswer:
  "snd (autoAnswer env messages isPro userId profile cb model src) =
     Inr (case snd (autoAnswer_try env messages isPro userId profile cb model src) of
            Inl e \<Rightarrow> Caught e
          | Inr r \<Rightarrow> r)"
  by (simp add: autoAnswer_def io_bind_def io_lift_def io_emit_def io_return_def split: sum.splits)

lemma autoAnswer_try_eq_Inr:
  "autoAnswer_try env messages isPro userId profile cb model src = (t, Inr r) \<longleftrightarrow>
     messages \<noteq> [] \<and>
     (\<exists>ds t'. streamText env (streamText_call env messages isPro userId profile model) = Inr (ds, None)
        \<and> after_stream env messages isPro userId profile cb model
             (content (last messages)) (getHistory env isPro messages)
             (snd (for_await cb (initial_vars (content (last messages)) src) ds))
           = (t', Inr r)
        \<and> t = StreamText (streamText_call env messages isPro userId profile model)
              # fst (for_await cb (initial_vars (content (last messages)) src) ds)
              @ t')"
  by (cases "messages = []")
    (auto simp: autoAnswer_try_def io_eq_Inr Let_def hd_drop_last)

lemma fst_autoAnswer_try:
  "fst (autoAnswer_try env messages isPro userId profile cb model src) =
     (if messages = [] then []
      else StreamText (streamText_call env messages isPro userId profile model)
        # (case streamText env (streamText_call env messages isPro userId profile model) of
             Inl e \<Rightarrow> []
           | Inr result \<Rightarrow>
               fst (for_await cb (initial_vars (content (last messages)) src) (fst result))
               @ (case snd result of
                    Some e \<Rightarrow> []
                  | None \<Rightarrow>
                      fst (after_stream env messages isPro userId profile cb model
                             (content (last messages)) (getHistory env isPro messages)
                             (snd (for_await cb (initial_vars (content (last messages)) src)
                                     (fst result)))))))"
  by (cases "messages = []")
    (auto simp: autoAnswer_try_def fst_io_bind snd_io_bind io_parts Let_def hd_drop_last
      split: sum.splits option.splits)

lemma in_autoAnswer:
  assumes "ev \<in> set (fst (autoAnswer env messages isPro userId profile cb model src))"
  defines "options \<equiv> streamText_call env messages isPro userId profile model"
  defines "query \<equiv> content (last messages)"
  obtains
    (streamText) "messages \<noteq> []" "ev = StreamText options"
  | (loop) ds r where "messages \<noteq> []" "streamText env options = Inr (ds, r)"
      "ev \<in> set (fst (for_await cb (initial_vars query src) ds))"
  | (after) ds where "messages \<noteq> []" "streamText env options = Inr (ds, None)"
      "ev \<in> set (fst (after_stream env messages isPro userId profile cb model query
                        (getHistory env isPro messages)
                        (snd (for_await cb (initial_vars query src) ds))))"
  | (logged) e where "snd (autoAnswer_try env messages isPro userId profile cb model src) = Inl e"
      "ev = LogError e ''llm-auto-openai''"
  | (finished) e where "snd (autoAnswer_try env messages isPro userId profile cb model src) = Inl e"
      "cb" "ev = OnStream Null True"
proof -
  from assms(1) have
    "ev \<in> set (fst (autoAnswer_try env messages isPro userId profile cb model src))
     \<or> (\<exists>e. snd (autoAnswer_try env messages isPro userId profile cb model src) = Inl e
           \<and> (ev = LogError e ''llm-auto-openai'' \<or> (cb \<and> ev = OnStream Null True)))"
    by (cases "snd (autoAnswer_try env messages isPro userId profile cb model src)")
      (auto simp: fst_autoAnswer call_onStream_def split: if_splits)
  then consider
    (a) "ev \<in> set (fst (autoAnswer_try env messages isPro userId profile cb model src))"
  | (b) e where "snd (autoAnswer_try env messages isPro userId profile cb model src) = Inl e"
      "ev = LogError e ''llm-auto-openai'' \<or> (cb \<and> ev = OnStream Null True)"
    by blast
  then show thesis
  proof cases
    case a
    then have ne: "messages \<noteq> []"
      by (auto simp: fst_autoAnswer_try split: if_splits)
    show ?thesis
    proof (cases "streamText env options")
      case (Inl e)
      with a ne have "ev = StreamText options"
        by (simp add: fst_autoAnswer_try options_def)
      with ne show ?thesis by (rule streamText)
    next
      case (Inr result)
      obtain ds r where result: "result = (ds, r)" by (cases result)
      from a ne Inr result consider "ev = StreamText options"
        | "ev \<in> set (fst (for_await cb (initial_vars query src) ds))"
        | "r = None" "ev \<in> set (fst (after_stream env messages isPro userId profile cb model query
                        (getHistory env isPro messages)
                        (snd (for_await cb (initial_vars query src) ds))))"
        by (auto simp: fst_autoAnswer_try options_def query_def split: option.splits)
      then show ?thesis
      proof cases
        case 1
        with ne show ?thesis by (rule streamText)
      next
        case 2
        with ne Inr result show ?thesis by (intro loop [of ds r]) simp_all
      next
        case 3
        with ne Inr result show ?thesis by (intro after [of ds]) simp_all
      qed
    qed
  next
    case (b e)
    then show ?thesis using logged [of e] finished [of e] by blast
  qed
qed

text \<open>The run that reaches the end of the try block, in full.\<close>

lemma after_stream_Completed:
  assumes "after_stream env messages isPro userId profile cb model query history s = (t, Inr Completed)"
  shows "\<exists>body s2.
     (if 0 < toolCallCount s
      then with_tools env isPro profile cb model query history
             (if 1 < toolCallCount s then s\<lparr>rewriteQuery := query\<rparr> else s)
      else without_tools env cb query s) = (body, Inr (Some s2)) \<and>
     t = (if 1 < toolCallCount s
          then [StreamResponse [(''sources'', JTexts (texts s)), (''status'', JString ''Thinking ...'')]]
          else [])
         @ body
         @ [IncSearchCount userId,
            SaveMessages userId messages (fullAnswer s2) (texts s2) (images s2) (videos s2)
              (fullRelated s2)]
         @ call_onStream cb Null True"
  using assms
  by (auto simp: after_stream_def thinking_def persist_def io_eq_Inr call_eq_Inr
      split: if_splits option.splits)

lemma completed_run:
  assumes fin: "snd (autoAnswer env messages isPro userId profile cb model src) = Inr Completed"
    and stream: "streamText env (streamText_call env messages isPro userId profile model) = Inr (ds, r)"
  defines "query \<equiv> content (last messages)"
  defines "s0 \<equiv> snd (for_await cb (initial_vars query src) ds)"
  shows "messages \<noteq> [] \<and> r = None \<and>
    (\<exists>body s2.
       (if Tool_call \<in> set ds
        then with_tools env isPro profile cb model query (getHistory env isPro messages)
               (if 1 < tool_calls ds then s0\<lparr>rewriteQuery := query\<rparr> else s0)
        else without_tools env cb query s0) = (body, Inr (Some s2)) \<and>
       fst (autoAnswer env messages isPro userId profile cb model src) =
         StreamText (streamText_call env messages isPro userId profile model)
         # fst (for_await cb (initial_vars query src) ds)
         @ (if 1 < tool_calls ds
            then [StreamResponse [(''sources'', JTexts (tool_texts ds)), (''status'', JString ''Thinking ...'')]]
            else [])
         @ body
         @ [IncSearchCount userId,
            SaveMessages userId messages (fullAnswer s2) (texts s2) (images s2) (videos s2)
              (fullRelated s2)]
         @ call_onStream cb Null True)"
proof -
  from fin have tried: "snd (autoAnswer_try env messages isPro userId profile cb model src) = Inr Completed"
    by (simp add: snd_autoAnswer split: sum.splits)
  then have eq: "autoAnswer_try env messages isPro userId profile cb model src
      = (fst (autoAnswer env messages isPro userId profile cb model src), Inr Completed)"
    by (simp add: fst_autoAnswer prod_eq_iff)
  from eq have ne: "messages \<noteq> []"
    by (simp add: autoAnswer_try_eq_Inr)
  from eq stream obtain t' where r: "r = None"
    and after: "after_stream env messages isPro userId profile cb model query
                  (getHistory env isPro messages) s0 = (t', Inr Completed)"
    and t: "fst (autoAnswer env messages isPro userId profile cb model src) =
              StreamText (streamText_call env messages isPro userId profile model)
              # fst (for_await cb (initial_vars query src) ds) @ t'"
    unfolding autoAnswer_try_eq_Inr query_def s0_def by auto
  have count: "toolCallCount s0 = tool_calls ds" and tts: "texts s0 = tool_texts ds"
    by (simp_all add: s0_def for_await_fields initial_vars_def)
  from after_stream_Completed [OF after] count tts t ne r show ?thesis
    by (auto simp: tool_calls_pos split: if_splits)
qed

subsection \<open>What is saved, and where the phases lie in the trace\<close>

lemma loop_vars:
  "toolCallCount (snd (for_await cb (initial_vars query src) ds)) = tool_calls ds"
  "fullAnswer (snd (for_await cb (initial_vars query src) ds)) = streamed_answer ds"
  "texts (snd (for_await cb (initial_vars query src) ds)) = tool_texts ds"
  "images (snd (for_await cb (initial_vars query src) ds)) = tool_images ds"
  "videos (snd (for_await cb (initial_vars query src) ds)) = []"
  "fullRelated (snd (for_await cb (initial_vars query src) ds)) = []"
  "hasError (snd (for_await cb (initial_vars query src) ds)) \<longleftrightarrow> (\<exists>e. Error_part e \<in> set ds)"
  by (simp_all add: for_await_fields initial_vars_def)

lemma persisted_without_tools:
  assumes "snd (without_tools env cb query (snd (for_await cb (initial_vars query src) ds))) = Inr (Some s2)"
  shows "fullAnswer s2 = streamed_answer ds" "texts s2 = tool_texts ds" "images s2 = tool_images ds"
    "videos s2 = []" "fullRelated s2 = concat (fst (getRelatedQuestions env query (tool_texts ds)))"
proof -
  from assms have "without_tools env cb query (snd (for_await cb (initial_vars query src) ds))
      = (fst (without_tools env cb query (snd (for_await cb (initial_vars query src) ds))),
         Inr (Some s2))"
    by (simp add: prod_eq_iff)
  then have s2: "s2 = (snd (for_await cb (initial_vars query src) ds))
      \<lparr>fullRelated := fullRelated (snd (for_await cb (initial_vars query src) ds))
         @ concat (fst (getRelatedQuestions env query
                          (texts (snd (for_await cb (initial_vars query src) ds)))))\<rparr>"
    by (simp add: without_tools_eq_Inr)
  show "fullAnswer s2 = streamed_answer ds" "texts s2 = tool_texts ds" "images s2 = tool_images ds"
    "videos s2 = []" "fullRelated s2 = concat (fst (getRelatedQuestions env query (tool_texts ds)))"
    by (simp_all add: s2 loop_vars)
qed

lemma persisted_with_tools:
  assumes "snd (with_tools env isPro profile cb model query history s1) = Inr (Some s2)"
    and "s1 = (if 1 < toolCallCount (snd (for_await cb (initial_vars query src) ds))
               then (snd (for_await cb (initial_vars query src) ds))\<lparr>rewriteQuery := query\<rparr>
               else snd (for_await cb (initial_vars query src) ds))"
  shows "\<exists>args ir vr.
     search env Cat_IMAGES (rewriteQuery s1) = Inr ir \<and>
     search env Cat_VIDEOS (rewriteQuery s1) = Inr vr \<and>
     fullAnswer s2 = answered (fst (directlyAnswer env args)) \<and>
     texts s2 = tool_texts ds \<and>
     images s2 = tool_images ds @ filter (\<lambda>img. prefix ''https'' (image_url img)) (res_images ir) \<and>
     videos s2 = take 8 (res_videos vr) \<and>
     fullRelated s2 = concat (fst (getRelatedQuestions env query (tool_texts ds))) \<and>
     DirectlyAnswer args \<in> set (fst (with_tools env isPro profile cb model query history s1))"
proof -
  from assms(1) have "with_tools env isPro profile cb model query history s1
      = (fst (with_tools env isPro profile cb model query history s1), Inr (Some s2))"
    by (simp add: prod_eq_iff)
  from with_tools_Some [OF this] obtain ir vr where
    "search env Cat_IMAGES (rewriteQuery s1) = Inr ir"
    "search env Cat_VIDEOS (rewriteQuery s1) = Inr vr"
    "fullAnswer s2 = answered (fst (directlyAnswer env
        \<lparr>da_isPro = isPro, da_source = source s1, da_history = history,
         da_profile = profile, da_llm = getLLM env model, da_query = query,
         da_texts = texts s1\<rparr>))"
    "texts s2 = texts s1"
    "images s2 = images s1 @ filter (\<lambda>img. prefix ''https'' (image_url img)) (res_images ir)"
    "videos s2 = take 8 (res_videos vr)"
    "fullRelated s2 = fullRelated s1 @ concat (fst (getRelatedQuestions env query (texts s1)))"
    "DirectlyAnswer \<lparr>da_isPro = isPro, da_source = source s1, da_history = history,
         da_profile = profile, da_llm = getLLM env model, da_query = query,
         da_texts = texts s1\<rparr> \<in> set (fst (with_tools env isPro profile cb model query history s1))"
    by auto
  moreover have "texts s1 = tool_texts ds" "images s1 = tool_images ds" "fullRelated s1 = []"
    by (simp_all add: assms(2) loop_vars)
  ultimately show ?thesis by auto
qed

text \<open>
  The effects of a later phase are a contiguous part of the effects of the whole call.
\<close>

lemma after_stream_in_trace:
  assumes "messages \<noteq> []"
    and "streamText env (streamText_call env messages isPro userId profile model) = Inr (ds, None)"
  shows "sublist
     (fst (after_stream env messages isPro userId profile cb model (content (last messages))
             (getHistory env isPro messages)
             (snd (for_await cb (initial_vars (content (last messages)) src) ds))))
     (fst (autoAnswer env messages isPro userId profile cb model src))"
proof -
  let ?after = "fst (after_stream env messages isPro userId profile cb model (content (last messages))
             (getHistory env isPro messages)
             (snd (for_await cb (initial_vars (content (last messages)) src) ds)))"
  let ?before = "StreamText (streamText_call env messages isPro userId profile model)
     # fst (for_await cb (initial_vars (content (last messages)) src) ds)"
  from assms obtain rest
    where "fst (autoAnswer env messages isPro userId profile cb model src) = ?before @ ?after @ rest"
    by (simp add: fst_autoAnswer fst_autoAnswer_try)
  then show ?thesis by (metis sublist_appendI)
qed

lemma branch_in_after_stream:
  assumes "snd (thinking env query s) = Inr s1"
  shows "sublist
     (fst (if 0 < toolCallCount s1
           then with_tools env isPro profile cb model query history s1
           else without_tools env cb query s1))
     (fst (after_stream env messages isPro userId profile cb model query history s))"
proof -
  from assms obtain rest where
    "fst (after_stream env messages isPro userId profile cb model query history s)
       = fst (thinking env query s)
         @ fst (if 0 < toolCallCount s1
                then with_tools env isPro profile cb model query history s1
                else without_tools env cb query s1)
         @ rest"
    by (simp add: after_stream_def fst_io_bind)
  then show ?thesis by (metis sublist_appendI)
qed


subsection \<open>All effects of a call\<close>

text \<open>Every effect of a call, whatever the collaborators do.\<close>

lemma autoAnswer_effects:
  assumes "ev \<in> set (fst (autoAnswer env messages isPro userId profile cb model src))"
  defines "options \<equiv> streamText_call env messages isPro userId profile model"
  defines "query \<equiv> content (last messages)"
  obtains
    (StreamText) "messages \<noteq> []" "ev = StreamText options"
  | (status) v where "cb" "ev = OnStream (JSON_stringify [(''status'', JString v)]) False"
  | (answer) x where "cb" "ev = OnStream (JSON_stringify [(''answer'', JString x)]) False"
  | (stream_error) ds r e where "cb" "streamText env options = Inr (ds, r)" "Error_part e \<in> set ds"
      "ev = OnStream (JSON_stringify [(''error'', JError e)]) False"
  | (answer_error) args e where "cb" "OnError e \<in> set (fst (directlyAnswer env args))"
      "ev = OnStream (JSON_stringify [(''error'', JError e)]) False"
  | (related) msg where "cb" "ev = OnStream (JSON_stringify [(''related'', JString msg)]) False"
  | (finished) "cb" "ev = OnStream Null True"
  | (LogError) e where "ev = LogError e ''llm-auto-openai''"
  | (thinking) ts where
      "ev = StreamResponse [(''sources'', JTexts ts), (''status'', JString ''Thinking ...'')]"
  | (Search) category q where "category = Cat_IMAGES \<or> category = Cat_VIDEOS" "ev = Search category q"
  | (clear) "ev = StreamResponse [(''status'', JString ''Answering ...''), (''clear'', JBool True)]"
  | (DirectlyAnswer) args where "ev = DirectlyAnswer args"
  | (generating) "ev = StreamResponse [(''status'', JString ''Generating related questions ...'')]"
  | (GetRelatedQuestions) ds r where "streamText env options = Inr (ds, r)"
      "ev = GetRelatedQuestions query (tool_texts ds)"
  | (images) ds q ir where "streamText env options = Inr (ds, None)"
      "search env Cat_IMAGES q = Inr ir"
      "ev = StreamResponse [(''images'', JImages (tool_images ds
              @ filter (\<lambda>img. prefix ''https'' (image_url img)) (res_images ir)))]"
  | (videos) q vr where "search env Cat_VIDEOS q = Inr vr"
      "ev = StreamResponse [(''videos'', JVideos (take 8 (res_videos vr)))]"
  | (IncSearchCount) "ev = IncSearchCount userId"
  | (save_without_tools) ds where "streamText env options = Inr (ds, None)" "Tool_call \<notin> set ds"
      "ev = SaveMessages userId messages (streamed_answer ds) (tool_texts ds) (tool_images ds) []
              (concat (fst (getRelatedQuestions env query (tool_texts ds))))"
  | (save_with_tools) ds args q ir vr where "streamText env options = Inr (ds, None)"
      "Tool_call \<in> set ds" "search env Cat_IMAGES q = Inr ir" "search env Cat_VIDEOS q = Inr vr"
      "ev = SaveMessages userId messages (answered (fst (directlyAnswer env args))) (tool_texts ds)
              (tool_images ds @ filter (\<lambda>img. prefix ''https'' (image_url img)) (res_images ir))
              (take 8 (res_videos vr))
              (concat (fst (getRelatedQuestions env query (tool_texts ds))))"
      "DirectlyAnswer args \<in> set (fst (autoAnswer env messages isPro userId profile cb model src))"
  using assms(1) unfolding options_def query_def
proof (cases rule: in_autoAnswer)
  case streamText
  then show ?thesis by (rule StreamText [unfolded options_def])
next
  case (loop ds r)
  from loop(3) show ?thesis
  proof (cases rule: in_for_await)
    case answering
    then show ?thesis by (rule status)
  next
    case (answer x)
    then show ?thesis using that(3) by blast
  next
    case searching
    then show ?thesis by (rule status)
  next
    case (error e)
    with loop(2) show ?thesis using stream_error [unfolded options_def, of ds r e] by blast
  next
    case (finished e)
    then show ?thesis using that(7) by blast
  next
    case (logged e)
    then show ?thesis using LogError by blast
  qed
next
  case (after ds)
  define s0 where "s0 = snd (for_await cb (initial_vars (content (last messages)) src) ds)"
  define s1 where "s1 = (if 1 < toolCallCount s0 then s0\<lparr>rewriteQuery := content (last messages)\<rparr> else s0)"
  have count: "toolCallCount s0 = tool_calls ds" "toolCallCount s1 = tool_calls ds"
    and tts: "texts s0 = tool_texts ds" "texts s1 = tool_texts ds"
    and imgs: "images s1 = tool_images ds"
    by (simp_all add: s0_def s1_def loop_vars)
  from after(3) show ?thesis unfolding s0_def [symmetric]
  proof (cases rule: in_after_stream)
    case thinking
    then show ?thesis using that(9) by blast
  next
    case branch
    show ?thesis
    proof (cases "0 < toolCallCount s0")
      case True
      with branch(2) have "ev \<in> set (fst (with_tools env isPro profile cb model (content (last messages))
          (getHistory env isPro messages) s1))"
        by (simp add: s1_def)
      then show ?thesis
      proof (cases rule: in_with_tools)
        case search_images
        then show ?thesis using Search by blast
      next
        case search_videos
        then show ?thesis using Search by blast
      next
        case clear
        then show ?thesis by (rule that(11))
      next
        case directlyAnswer
        then show ?thesis using DirectlyAnswer by blast
      next
        case answer_callback
        then show ?thesis
        proof (cases rule: in_answer_callbacks)
          case (answer msg)
          then show ?thesis using that(3) by blast
        next
          case (error e)
          then show ?thesis using that(5) by blast
        next
          case (finished e)
          then show ?thesis using that(7) by blast
        qed
      next
        case generating
        then show ?thesis by (rule that(13))
      next
        case related
        with after(2) tts show ?thesis
          using GetRelatedQuestions [unfolded options_def query_def, of ds None] by simp
      next
        case (related_callback s')
        then show ?thesis by (elim in_related_callbacks) (use that(6) in blast)
      next
        case (images ir)
        with after(2) imgs show ?thesis
          using that(15) [unfolded options_def, of ds "rewriteQuery s1" ir] by simp
      next
        case (videos vr)
        then show ?thesis using that(16) by blast
      qed
    next
      case False
      with branch(2) have "ev \<in> set (fst (without_tools env cb (content (last messages)) s0))"
        by (simp add: s1_def)
      then show ?thesis
      proof (cases rule: in_without_tools)
        case generating
        then show ?thesis by (rule that(13))
      next
        case related
        with after(2) tts show ?thesis
          using GetRelatedQuestions [unfolded options_def query_def, of ds None] by simp
      next
        case related_callback
        then show ?thesis by (elim in_related_callbacks) (use that(6) in blast)
      qed
    qed
  next
    case (persist s2)
    from persist(3) show ?thesis
    proof (cases rule: in_persist)
      case increment
      then show ?thesis by (rule IncSearchCount)
    next
      case finished
      then show ?thesis by (rule that(7))
    next
      case save
      show ?thesis
      proof (cases "0 < toolCallCount s0")
        case True
        with persist(2) have "snd (with_tools env isPro profile cb model (content (last messages))
            (getHistory env isPro messages) s1) = Inr (Some s2)"
          by (simp add: s1_def)
        from persisted_with_tools [OF this s1_def [unfolded s0_def]] obtain args ir vr where
          "search env Cat_IMAGES (rewriteQuery s1) = Inr ir"
          "search env Cat_VIDEOS (rewriteQuery s1) = Inr vr"
          "fullAnswer s2 = answered (fst (directlyAnswer env args))"
          "texts s2 = tool_texts ds"
          "images s2 = tool_images ds @ filter (\<lambda>img. prefix ''https'' (image_url img)) (res_images ir)"
          "videos s2 = take 8 (res_videos vr)"
          "fullRelated s2 = concat (fst (getRelatedQuestions env (content (last messages)) (tool_texts ds)))"
          "DirectlyAnswer args \<in> set (fst (with_tools env isPro profile cb model
              (content (last messages)) (getHistory env isPro messages) s1))"
          by blast
        moreover have "sublist
            (fst (if 0 < toolCallCount s1
                  then with_tools env isPro profile cb model (content (last messages))
                         (getHistory env isPro messages) s1
                  else without_tools env cb (content (last messages)) s1))
            (fst (after_stream env messages isPro userId profile cb model (content (last messages))
                    (getHistory env isPro messages) s0))"
          unfolding s1_def by (rule branch_in_after_stream [OF persist(1)])
        with True count have "sublist
            (fst (with_tools env isPro profile cb model (content (last messages))
                    (getHistory env isPro messages) s1))
            (fst (after_stream env messages isPro userId profile cb model (content (last messages))
                    (getHistory env isPro messages) s0))"
          by simp
        moreover have "sublist
            (fst (after_stream env messages isPro userId profile cb model (content (last messages))
                    (getHistory env isPro messages) s0))
            (fst (autoAnswer env messages isPro userId profile cb model src))"
          unfolding s0_def by (rule after_stream_in_trace [OF after(1) after(2)])
        ultimately show ?thesis using save after(2) True count
          using save_with_tools [unfolded options_def query_def, of ds "rewriteQuery s1" ir vr args]
          by (auto simp: tool_calls_pos dest!: set_mono_sublist)
      next
        case False
        with persist(2) have "snd (without_tools env cb (content (last messages))
            (snd (for_await cb (initial_vars (content (last messages)) src) ds))) = Inr (Some s2)"
          by (simp add: s1_def s0_def)
        from persisted_without_tools [OF this] save after(2) False count show ?thesis
          using save_without_tools [unfolded options_def query_def, of ds]
          by (simp add: tool_calls_pos)
      qed
    qed
  qed
next
  case (logged e)
  then show ?thesis using LogError by blast
next
  case (finished e)
  then show ?thesis using that(7) by blast
qed

subsection \<open>The example runs\<close>

lemma io_bind_pair:
  "io_bind (t, Inr x) f = (case f x of (t', r) \<Rightarrow> (t @ t', r))"
  "io_bind (t, Inl e) f = (t, Inl e)"
  by (simp_all add: io_bind_def split: prod.splits)

lemmas run_defs = autoAnswer_def autoAnswer_try_def streamText_call_def createUserMessages_def
  after_stream_def thinking_def persist_def with_tools_def without_tools_def
  call_streamResponse_def call_directlyAnswer_def call_getRelatedQuestions_def call_saveMessages_def
  call_onStream_def io_bind_pair io_return_def io_throw_def io_emit_def io_lift_def await_def
  await_unit_def initial_vars_def demo_env_def demo_message_def String_def Let_def


lemma demo_run_plain:
  "autoAnswer (demo_env [Text_delta ''Hi'', Text_delta '' there''] []) [demo_message] False ''u1''
       None True ''gpt'' Cat_ALL
     = ([StreamText
          \<lparr>opt_model = ''gpt'', opt_system = ''Profile: undefined. History: hello.'',
           opt_messages = [\<lparr>msg_role = ''user'', msg_content = [TextPart ''hello'']\<rparr>],
           opt_maxTokens = 1024,
           opt_tools =
             [(''getInformation'',
               \<lparr>description = ''get information from internet to answer user questions.'',
                parameter = ''question'', execute = Exec_searchRelevantContent ''u1''\<rparr>),
              (''accessWebPage'',
               \<lparr>description = ''access a webpage or url and return the content.'',
                parameter = ''url'', execute = Exec_accessWebPage\<rparr>)]\<rparr>,
         OnStream (JSON_stringify [(''status'', JString ''Answering ...'')]) False,
         OnStream (JSON_stringify [(''answer'', JString ''Hi'')]) False,
         OnStream (JSON_stringify [(''answer'', JString '' there'')]) False,
         StreamResponse [(''status'', JString ''Generating related questions ...'')],
         GetRelatedQuestions ''hello'' [],
         OnStream (JSON_stringify [(''related'', JString ''What '')]) False,
         OnStream (JSON_stringify [(''related'', JString ''next?'')]) False,
         IncSearchCount ''u1'',
         SaveMessages ''u1'' [demo_message] ''Hi there'' [] [] [] ''What next?'',
         OnStream Null True],
        Inr Completed)"
  by (simp add: run_defs)

lemma demo_run_tools:
  "autoAnswer
       (demo_env [Tool_call, Tool_result ''getInformation'' ''q2'' [TextSource ''t''] [], Text_delta ''x'']
          [OnMessage ''ans''])
       [demo_message] False ''u1'' None True ''gpt'' Cat_ALL
     = ([StreamText
          \<lparr>opt_model = ''gpt'', opt_system = ''Profile: undefined. History: hello.'',
           opt_messages = [\<lparr>msg_role = ''user'', msg_content = [TextPart ''hello'']\<rparr>],
           opt_maxTokens = 1024,
           opt_tools =
             [(''getInformation'',
               \<lparr>description = ''get information from internet to answer user questions.'',
                parameter = ''question'', execute = Exec_searchRelevantContent ''u1''\<rparr>),
              (''accessWebPage'',
               \<lparr>description = ''access a webpage or url and return the content.'',
                parameter = ''url'', execute = Exec_accessWebPage\<rparr>)]\<rparr>,
         OnStream (JSON_stringify [(''status'', JString ''Searching ...'')]) False,
         OnStream (JSON_stringify [(''status'', JString ''Answering ...'')]) False,
         OnStream (JSON_stringify [(''answer'', JString ''x'')]) False,
         Search Cat_IMAGES ''q2'', Search Cat_VIDEOS ''q2'',
         StreamResponse [(''status'', JString ''Answering ...''), (''clear'', JBool True)],
         DirectlyAnswer
          \<lparr>da_isPro = False, da_source = Cat_ALL, da_history = ''hello'', da_profile = None,
           da_llm = ''gpt'', da_query = ''hello'', da_texts = [TextSource ''t'']\<rparr>,
         OnStream (JSON_stringify [(''answer'', JString ''ans'')]) False,
         StreamResponse [(''status'', JString ''Generating related questions ...'')],
         GetRelatedQuestions ''hello'' [TextSource ''t''],
         OnStream (JSON_stringify [(''related'', JString ''What '')]) False,
         OnStream (JSON_stringify [(''related'', JString ''next?'')]) False,
         StreamResponse [(''images'', JImages [\<lparr>image_title = ''a'', image_url = ''https://a/1.png''\<rparr>])],
         StreamResponse [(''videos'', JVideos (map VideoSource
            [''v1'', ''v2'', ''v3'', ''v4'', ''v5'', ''v6'', ''v7'', ''v8'']))],
         IncSearchCount ''u1'',
         SaveMessages ''u1'' [demo_message] ''ans'' [TextSource ''t'']
           [\<lparr>image_title = ''a'', image_url = ''https://a/1.png''\<rparr>]
           (map VideoSource [''v1'', ''v2'', ''v3'', ''v4'', ''v5'', ''v6'', ''v7'', ''v8''])
           ''What next?'',
         OnStream Null True],
        Inr Completed)"
  by (simp add: run_defs)

subsection \<open>The early return, and what is never saved or searched\<close>

lemma after_stream_Returned_early:
  assumes "after_stream env messages isPro userId profile cb model query history s = (t, Inr Returned_early)"
  shows "0 < toolCallCount s \<and>
     (\<exists>body. with_tools env isPro profile cb model query history
               (if 1 < toolCallCount s then s\<lparr>rewriteQuery := query\<rparr> else s) = (body, Inr None) \<and>
        t = (if 1 < toolCallCount s
             then [StreamResponse [(''sources'', JTexts (texts s)), (''status'', JString ''Thinking ...'')]]
             else [])
            @ body)"
  using assms
  by (auto simp: after_stream_def thinking_def persist_def io_eq_Inr call_eq_Inr without_tools_eq_Inr
      split: if_splits option.splits)

lemma after_stream_not_Caught:
  "after_stream env messages isPro userId profile cb model query history s \<noteq> (t, Inr (Caught e))"
  by (auto simp: after_stream_def thinking_def persist_def io_eq_Inr call_eq_Inr
      split: if_splits option.splits)

lemma autoAnswer_try_not_Caught:
  "snd (autoAnswer_try env messages isPro userId profile cb model src) \<noteq> Inr (Caught e)"
proof
  assume "snd (autoAnswer_try env messages isPro userId profile cb model src) = Inr (Caught e)"
  then have "autoAnswer_try env messages isPro userId profile cb model src
      = (fst (autoAnswer_try env messages isPro userId profile cb model src), Inr (Caught e))"
    by (simp add: prod_eq_iff)
  then show False
    by (simp add: autoAnswer_try_eq_Inr after_stream_not_Caught)
qed

lemma sublist_trans: "sublist xs ys \<Longrightarrow> sublist ys zs \<Longrightarrow> sublist xs zs"
  by (rule sublist_order.order.trans)


lemma loop_and_callbacks_save_nothing:
  "list_all (\<lambda>ev. \<not> is_SaveMessages ev) (fst (for_await cb s ds))"
  "list_all (\<lambda>ev. \<not> is_SaveMessages ev) (fst (answer_callbacks cb s cs))"
  "list_all (\<lambda>ev. \<not> is_SaveMessages ev) (fst (related_callbacks cb s ms))"
  "list_all (\<lambda>ev. \<not> is_SaveMessages ev) (call_onStream cb arg fin)"
  unfolding list_all_iff
  by (auto elim!: in_for_await in_answer_callbacks in_related_callbacks simp: call_onStream_def)

lemma loop_and_callbacks_search_nothing:
  "list_all (\<lambda>ev. \<not> is_Search ev) (fst (for_await cb s ds))"
  "list_all (\<lambda>ev. \<not> is_Search ev) (fst (related_callbacks cb s ms))"
  "list_all (\<lambda>ev. \<not> is_Search ev) (call_onStream cb arg fin)"
  unfolding list_all_iff
  by (auto elim!: in_for_await in_related_callbacks simp: call_onStream_def)

lemma demo_run_answer_error:
  "autoAnswer (demo_env [Tool_call] [OnMessage ''part'', OnError (Err ''boom'')]) [demo_message] False
       ''u1'' None True ''gpt'' Cat_ALL
     = ([StreamText
          \<lparr>opt_model = ''gpt'', opt_system = ''Profile: undefined. History: hello.'',
           opt_messages = [\<lparr>msg_role = ''user'', msg_content = [TextPart ''hello'']\<rparr>],
           opt_maxTokens = 1024,
           opt_tools =
             [(''getInformation'',
               \<lparr>description = ''get information from internet to answer user questions.'',
                parameter = ''question'', execute = Exec_searchRelevantContent ''u1''\<rparr>),
              (''accessWebPage'',
               \<lparr>description = ''access a webpage or url and return the content.'',
                parameter = ''url'', execute = Exec_accessWebPage\<rparr>)]\<rparr>,
         OnStream (JSON_stringify [(''status'', JString ''Searching ...'')]) False,
         Search Cat_IMAGES ''hello'', Search Cat_VIDEOS ''hello'',
         StreamResponse [(''status'', JString ''Answering ...''), (''clear'', JBool True)],
         DirectlyAnswer
          \<lparr>da_isPro = False, da_source = Cat_ALL, da_history = ''hello'', da_profile = None,
           da_llm = ''gpt'', da_query = ''hello'', da_texts = []\<rparr>,
         OnStream (JSON_stringify [(''answer'', JString ''part'')]) False,
         OnStream (JSON_stringify [(''error'', JError (Err ''boom''))]) False,
         OnStream Null True],
        Inr Returned_early)"
  by (simp add: run_defs)

text \<open>
  The guarded path: a call that leaves through the \<open>return\<close> of line 164 (the model
  made a tool call, and an error was reported by the stream or by \<open>directlyAnswer\<close>)
  does not call \<open>saveMessages\<close>.
\<close>

lemma returned_early_saves_nothing:
  assumes "snd (autoAnswer env messages isPro userId profile onStream model src) = Inr Returned_early"
  shows "list_all (\<lambda>ev. \<not> is_SaveMessages ev)
     (fst (autoAnswer env messages isPro userId profile onStream model src))"
proof -
  from assms have "snd (autoAnswer_try env messages isPro userId profile onStream model src)
      = Inr Returned_early"
    by (simp add: snd_autoAnswer split: sum.splits)
  then have "autoAnswer_try env messages isPro userId profile onStream model src
      = (fst (autoAnswer env messages isPro userId profile onStream model src), Inr Returned_early)"
    by (simp add: fst_autoAnswer prod_eq_iff)
  then obtain ds t' where
    after: "after_stream env messages isPro userId profile onStream model
             (content (last messages)) (getHistory env isPro messages)
             (snd (for_await onStream (initial_vars (content (last messages)) src) ds))
           = (t', Inr Returned_early)"
    and trace: "fst (autoAnswer env messages isPro userId profile onStream model src)
        = StreamText (streamText_call env messages isPro userId profile model)
          # fst (for_await onStream (initial_vars (content (last messages)) src) ds) @ t'"
    unfolding autoAnswer_try_eq_Inr by blast
  from after_stream_Returned_early [OF after] obtain body where
    body: "with_tools env isPro profile onStream model (content (last messages))
        (getHistory env isPro messages)
        (if 1 < toolCallCount (snd (for_await onStream (initial_vars (content (last messages)) src) ds))
         then (snd (for_await onStream (initial_vars (content (last messages)) src) ds))
                \<lparr>rewriteQuery := content (last messages)\<rparr>
         else snd (for_await onStream (initial_vars (content (last messages)) src) ds))
       = (body, Inr None)"
    and t': "t' = (if 1 < toolCallCount (snd (for_await onStream (initial_vars (content (last messages)) src) ds))
             then [StreamResponse [(''sources'',
                     JTexts (texts (snd (for_await onStream (initial_vars (content (last messages)) src) ds)))),
                   (''status'', JString ''Thinking ...'')]]
             else [])
            @ body"
    by blast
  from with_tools_None [OF body] have "list_all (\<lambda>ev. \<not> is_SaveMessages ev) body"
    by (auto simp: loop_and_callbacks_save_nothing)
  with trace t' show ?thesis
    by (simp add: loop_and_callbacks_save_nothing)
qed

subsection \<open>The system prompt and the image parts\<close>

lemma attachmentsToParts_map: "attachmentsToParts atts = map ImagePart atts"
  by (induction atts) simp_all

lemma util_format_leftover:
  "a \<in> set args \<Longrightarrow> sublist (String a) (concat (map (\<lambda>a. CHR '' '' # String a) args))"
proof (induction args)
  case Nil
  then show ?case by simp
next
  case (Cons b args)
  show ?case
  proof (cases "a = b")
    case True
    have "concat (map (\<lambda>a. CHR '' '' # String a) (b # args))
        = [CHR '' ''] @ String a @ concat (map (\<lambda>a. CHR '' '' # String a) args)"
      by (simp add: True)
    then show ?thesis by (metis sublist_appendI)
  next
    case False
    with Cons have "sublist (String a) (concat (map (\<lambda>a. CHR '' '' # String a) args))"
      by simp
    then have "sublist (String a)
        ((CHR '' '' # String b) @ concat (map (\<lambda>a. CHR '' '' # String a) args))"
      by (rule sublist_trans) (rule sublist_append_leftI)
    then show ?thesis by simp
  qed
qed

lemma util_format_contains_argument:
  "a \<in> set args \<Longrightarrow> sublist (String a) (util_format template args)"
proof (induction template args rule: util_format.induct)
  case (1 args)
  then show ?case by (simp add: util_format_leftover)
next
  case (2 c args)
  then have "sublist (String a) (util_format [] args)"
    by (simp add: util_format_leftover)
  then have "sublist (String a) ([c] @ util_format [] args)"
    by (rule sublist_trans) (rule sublist_append_leftI)
  then show ?case by simp
next
  case (3 c d cs args)
  consider (takes) "c = CHR ''%''" "d = CHR ''s''" "args \<noteq> []"
    | (percent) "\<not> (c = CHR ''%'' \<and> d = CHR ''s'' \<and> args \<noteq> [])" "c = CHR ''%''" "d = CHR ''%''"
    | (plain) "\<not> (c = CHR ''%'' \<and> d = CHR ''s'' \<and> args \<noteq> [])" "\<not> (c = CHR ''%'' \<and> d = CHR ''%'')"
    by blast
  then show ?case
  proof cases
    case takes
    then have eq: "util_format (c # d # cs) args = String (hd args) @ util_format cs (tl args)"
      by simp
    from takes obtain b rest where args: "args = b # rest" by (cases args) auto
    show ?thesis
    proof (cases "a = b")
      case True
      with args show ?thesis unfolding eq by simp
    next
      case False
      with "3.prems" args have "a \<in> set (tl args)" by simp
      with "3.IH"(1) takes have "sublist (String a) (util_format cs (tl args))" by simp
      then show ?thesis unfolding eq
        by (rule sublist_trans) (rule sublist_append_leftI)
    qed
  next
    case percent
    then have eq: "util_format (c # d # cs) args = [CHR ''%''] @ util_format cs args"
      by auto
    from "3.IH"(2) "3.prems" percent have "sublist (String a) (util_format cs args)" by simp
    then show ?thesis unfolding eq
      by (rule sublist_trans) (rule sublist_append_leftI)
  next
    case plain
    then have eq: "util_format (c # d # cs) args = [c] @ util_format (d # cs) args"
      by auto
    from "3.IH"(3) "3.prems" plain have "sublist (String a) (util_format (d # cs) args)" by simp
    then show ?thesis unfolding eq
      by (rule sublist_trans) (rule sublist_append_leftI)
  qed
qed

section \<open>Properties\<close>

subsection \<open>Saving the transcript\<close>

text \<open>
  C1, as the code has it. A call that runs to the end of the try block (it neither
  enters the catch block nor leaves through the \<open>return\<close> of line 164) calls
  \<open>saveMessages\<close> exactly once, with the accumulated answer, text sources, images, videos
  and related questions, and its last effect after that is \<open>onStream(null, true)\<close>, when a
  callback is supplied.
\<close>

theorem completed_run_saves_once:
  assumes "snd (autoAnswer env messages isPro userId profile onStream model src) = Inr Completed"
    and "streamText env (streamText_call env messages isPro userId profile model) = Inr (ds, r)"
  shows "\<exists>pre answer imgs vids.
      fst (autoAnswer env messages isPro userId profile onStream model src)
        = pre
          @ [SaveMessages userId messages answer (tool_texts ds) imgs vids
               (concat (fst (getRelatedQuestions env (content (last messages)) (tool_texts ds))))]
          @ call_onStream onStream Null True
      \<and> list_all (\<lambda>ev. \<not> is_SaveMessages ev) pre
      \<and> (Tool_call \<notin> set ds \<longrightarrow>
            answer = streamed_answer ds \<and> imgs = tool_images ds \<and> vids = [])
      \<and> (Tool_call \<in> set ds \<longrightarrow>
            (\<exists>args q ir vr.
               DirectlyAnswer args \<in> set pre
               \<and> answer = answered (fst (directlyAnswer env args))
               \<and> search env Cat_IMAGES q = Inr ir \<and> search env Cat_VIDEOS q = Inr vr
               \<and> imgs = tool_images ds
                    @ filter (\<lambda>img. prefix ''https'' (image_url img)) (res_images ir)
               \<and> vids = take 8 (res_videos vr)))"
proof -
  let ?query = "content (last messages)"
  let ?s0 = "snd (for_await onStream (initial_vars ?query src) ds)"
  let ?s1 = "if 1 < tool_calls ds then ?s0\<lparr>rewriteQuery := ?query\<rparr> else ?s0"
  let ?head = "StreamText (streamText_call env messages isPro userId profile model)
         # fst (for_await onStream (initial_vars ?query src) ds)
         @ (if 1 < tool_calls ds
            then [StreamResponse [(''sources'', JTexts (tool_texts ds)), (''status'', JString ''Thinking ...'')]]
            else [])"
  from completed_run [OF assms] obtain body s2 where
    branch: "(if Tool_call \<in> set ds
        then with_tools env isPro profile onStream model ?query (getHistory env isPro messages) ?s1
        else without_tools env onStream ?query ?s0) = (body, Inr (Some s2))"
    and trace: "fst (autoAnswer env messages isPro userId profile onStream model src) =
         (?head @ body @ [IncSearchCount userId])
         @ [SaveMessages userId messages (fullAnswer s2) (texts s2) (images s2) (videos s2)
              (fullRelated s2)]
         @ call_onStream onStream Null True"
    by auto
  have head: "list_all (\<lambda>ev. \<not> is_SaveMessages ev) ?head"
    by (simp add: loop_and_callbacks_save_nothing)
  show ?thesis
  proof (cases "Tool_call \<in> set ds")
    case False
    with branch have eq: "without_tools env onStream ?query ?s0 = (body, Inr (Some s2))"
      by simp
    then have "snd (without_tools env onStream ?query ?s0) = Inr (Some s2)"
      by simp
    note saved = persisted_without_tools [OF this]
    from eq have "list_all (\<lambda>ev. \<not> is_SaveMessages ev) body"
      by (auto simp: without_tools_eq_Inr loop_and_callbacks_save_nothing)
    with head have "list_all (\<lambda>ev. \<not> is_SaveMessages ev) (?head @ body @ [IncSearchCount userId])"
      by simp
    with trace saved False show ?thesis
      by (intro exI [of _ "?head @ body @ [IncSearchCount userId]"] exI [of _ "fullAnswer s2"]
          exI [of _ "images s2"] exI [of _ "videos s2"]) simp
  next
    case True
    with branch have eq: "with_tools env isPro profile onStream model ?query
        (getHistory env isPro messages) ?s1 = (body, Inr (Some s2))"
      by simp
    then have snd_eq: "snd (with_tools env isPro profile onStream model ?query
        (getHistory env isPro messages) ?s1) = Inr (Some s2)"
      and fst_eq: "fst (with_tools env isPro profile onStream model ?query
        (getHistory env isPro messages) ?s1) = body"
      by simp_all
    have s1: "?s1 = (if 1 < toolCallCount ?s0 then ?s0\<lparr>rewriteQuery := ?query\<rparr> else ?s0)"
      by (simp add: loop_vars)
    from persisted_with_tools [OF snd_eq s1] fst_eq obtain args ir vr where saved:
      "search env Cat_IMAGES (rewriteQuery ?s1) = Inr ir"
      "search env Cat_VIDEOS (rewriteQuery ?s1) = Inr vr"
      "fullAnswer s2 = answered (fst (directlyAnswer env args))"
      "texts s2 = tool_texts ds"
      "images s2 = tool_images ds @ filter (\<lambda>img. prefix ''https'' (image_url img)) (res_images ir)"
      "videos s2 = take 8 (res_videos vr)"
      "fullRelated s2 = concat (fst (getRelatedQuestions env ?query (tool_texts ds)))"
      "DirectlyAnswer args \<in> set body"
      by auto
    from with_tools_Some [OF eq] have "list_all (\<lambda>ev. \<not> is_SaveMessages ev) body"
      by (auto simp: loop_and_callbacks_save_nothing)
    with head have "list_all (\<lambda>ev. \<not> is_SaveMessages ev) (?head @ body @ [IncSearchCount userId])"
      by simp
    with trace saved True show ?thesis
      by (intro exI [of _ "?head @ body @ [IncSearchCount userId]"] exI [of _ "fullAnswer s2"]
          exI [of _ "images s2"] exI [of _ "videos s2"]) auto
  qed
qed

theorem completed_run_saves_once_witness:
  "snd (autoAnswer (demo_env [Text_delta ''Hi'', Text_delta '' there''] []) [demo_message] False ''u1''
          None True ''gpt'' Cat_ALL) = Inr Completed
   \<and> streamText (demo_env [Text_delta ''Hi'', Text_delta '' there''] [])
        (streamText_call (demo_env [Text_delta ''Hi'', Text_delta '' there''] []) [demo_message] False
           ''u1'' None ''gpt'')
       = Inr ([Text_delta ''Hi'', Text_delta '' there''], None)
   \<and> (\<exists>pre answer imgs vids related.
        fst (autoAnswer (demo_env [Text_delta ''Hi'', Text_delta '' there''] []) [demo_message] False
               ''u1'' None True ''gpt'' Cat_ALL)
          = pre @ [SaveMessages ''u1'' [demo_message] answer
                     (tool_texts [Text_delta ''Hi'', Text_delta '' there'']) imgs vids related]
            @ call_onStream True Null True
        \<and> list_all (\<lambda>ev. \<not> is_SaveMessages ev) pre
        \<and> answer = streamed_answer [Text_delta ''Hi'', Text_delta '' there''])"
proof -
  have completed: "snd (autoAnswer (demo_env [Text_delta ''Hi'', Text_delta '' there''] [])
      [demo_message] False ''u1'' None True ''gpt'' Cat_ALL) = Inr Completed"
    by (simp add: demo_run_plain)
  have stream: "streamText (demo_env [Text_delta ''Hi'', Text_delta '' there''] [])
        (streamText_call (demo_env [Text_delta ''Hi'', Text_delta '' there''] []) [demo_message] False
           ''u1'' None ''gpt'')
       = Inr ([Text_delta ''Hi'', Text_delta '' there''], None)"
    by (simp add: demo_env_def)
  have "Tool_call \<notin> set [Text_delta ''Hi'', Text_delta '' there'']"
    by simp
  with completed_run_saves_once [OF completed stream] completed stream show ?thesis
    by blast
qed

text \<open>
  C1 as stated fails: a call can end without entering the catch block and without
  saving. Here the model calls a tool and \<open>directlyAnswer\<close> reports an error: the call
  leaves through the \<open>return\<close> of line 164.
\<close>

theorem saves_unless_caught_counterexample:
  "snd (autoAnswer (demo_env [Tool_call] [OnMessage ''part'', OnError (Err ''boom'')]) [demo_message]
          False ''u1'' None True ''gpt'' Cat_ALL) = Inr Returned_early
   \<and> filter is_SaveMessages
        (fst (autoAnswer (demo_env [Tool_call] [OnMessage ''part'', OnError (Err ''boom'')])
                [demo_message] False ''u1'' None True ''gpt'' Cat_ALL)) = []"
  by (simp add: demo_run_answer_error)

subsection \<open>The order of the steps after the stream\<close>

text \<open>
  C2, as the code has it. For a call that runs to the end of the try block. When the
  model made at least one tool call, then after the stream is consumed the image search
  and the video search are started, in this order; later the related questions are
  generated; then the images and the videos found are sent, the search count is
  incremented and the transcript is saved. When the model made no tool call, no image
  or video search is made: the related questions are generated and the transcript is
  saved.
\<close>

theorem completed_run_order:
  assumes "snd (autoAnswer env messages isPro userId profile onStream model src) = Inr Completed"
    and "streamText env (streamText_call env messages isPro userId profile model) = Inr (ds, r)"
  shows "(Tool_call \<in> set ds \<longrightarrow>
      (\<exists>q before answering related_sent answer imgs vids related.
         fst (autoAnswer env messages isPro userId profile onStream model src)
           = StreamText (streamText_call env messages isPro userId profile model)
             # fst (for_await onStream (initial_vars (content (last messages)) src) ds)
             @ before
             @ [Search Cat_IMAGES q, Search Cat_VIDEOS q]
             @ answering
             @ [GetRelatedQuestions (content (last messages)) (tool_texts ds)]
             @ related_sent
             @ [StreamResponse [(''images'', JImages imgs)],
                StreamResponse [(''videos'', JVideos vids)],
                IncSearchCount userId,
                SaveMessages userId messages answer (tool_texts ds) imgs vids related]
             @ call_onStream onStream Null True))
   \<and> (Tool_call \<notin> set ds \<longrightarrow>
        list_all (\<lambda>ev. \<not> is_Search ev)
          (fst (autoAnswer env messages isPro userId profile onStream model src))
        \<and> (\<exists>related_sent answer imgs vids related.
             fst (autoAnswer env messages isPro userId profile onStream model src)
               = StreamText (streamText_call env messages isPro userId profile model)
                 # fst (for_await onStream (initial_vars (content (last messages)) src) ds)
                 @ [StreamResponse [(''status'', JString ''Generating related questions ...'')],
                    GetRelatedQuestions (content (last messages)) (tool_texts ds)]
                 @ related_sent
                 @ [IncSearchCount userId,
                    SaveMessages userId messages answer (tool_texts ds) imgs vids related]
                 @ call_onStream onStream Null True))"
proof -
  let ?query = "content (last messages)"
  let ?s0 = "snd (for_await onStream (initial_vars ?query src) ds)"
  let ?s1 = "if 1 < tool_calls ds then ?s0\<lparr>rewriteQuery := ?query\<rparr> else ?s0"
  let ?thinking = "if 1 < tool_calls ds
            then [StreamResponse [(''sources'', JTexts (tool_texts ds)), (''status'', JString ''Thinking ...'')]]
            else []"
  from completed_run [OF assms] obtain body s2 where
    branch: "(if Tool_call \<in> set ds
        then with_tools env isPro profile onStream model ?query (getHistory env isPro messages) ?s1
        else without_tools env onStream ?query ?s0) = (body, Inr (Some s2))"
    and trace: "fst (autoAnswer env messages isPro userId profile onStream model src) =
         StreamText (streamText_call env messages isPro userId profile model)
         # fst (for_await onStream (initial_vars ?query src) ds)
         @ ?thinking
         @ body
         @ [IncSearchCount userId,
            SaveMessages userId messages (fullAnswer s2) (texts s2) (images s2) (videos s2)
              (fullRelated s2)]
         @ call_onStream onStream Null True"
    by auto
  show ?thesis
  proof (cases "Tool_call \<in> set ds")
    case True
    with branch have eq: "with_tools env isPro profile onStream model ?query
        (getHistory env isPro messages) ?s1 = (body, Inr (Some s2))"
      by simp
    have texts: "texts ?s1 = tool_texts ds"
      by (simp add: loop_vars)
    let ?args = "\<lparr>da_isPro = isPro, da_source = source ?s1, da_history = getHistory env isPro messages,
        da_profile = profile, da_llm = getLLM env model, da_query = ?query, da_texts = texts ?s1\<rparr>"
    let ?answering = "[StreamResponse [(''status'', JString ''Answering ...''), (''clear'', JBool True)],
        DirectlyAnswer ?args]
        @ fst (answer_callbacks onStream (?s1\<lparr>fullAnswer := []\<rparr>) (fst (directlyAnswer env ?args)))
        @ [StreamResponse [(''status'', JString ''Generating related questions ...'')]]"
    let ?related = "fst (related_callbacks onStream
        (snd (answer_callbacks onStream (?s1\<lparr>fullAnswer := []\<rparr>) (fst (directlyAnswer env ?args))))
        (fst (getRelatedQuestions env ?query (texts ?s1))))"
    from with_tools_Some [OF eq] have body: "body =
        [Search Cat_IMAGES (rewriteQuery ?s1), Search Cat_VIDEOS (rewriteQuery ?s1)]
        @ ?answering
        @ [GetRelatedQuestions ?query (tool_texts ds)]
        @ ?related
        @ [StreamResponse [(''images'', JImages (images s2))],
           StreamResponse [(''videos'', JVideos (videos s2))]]"
      and "texts s2 = tool_texts ds"
      by (auto simp: loop_vars)
    with trace True show ?thesis
      by (intro conjI impI exI [of _ "rewriteQuery ?s1"] exI [of _ ?thinking] exI [of _ ?answering]
          exI [of _ ?related] exI [of _ "fullAnswer s2"] exI [of _ "images s2"]
          exI [of _ "videos s2"] exI [of _ "fullRelated s2"]) simp_all
  next
    case False
    with branch have eq: "without_tools env onStream ?query ?s0 = (body, Inr (Some s2))"
      by simp
    then have "snd (without_tools env onStream ?query ?s0) = Inr (Some s2)"
      by simp
    note saved = persisted_without_tools [OF this]
    have texts: "texts ?s0 = tool_texts ds"
      by (simp add: loop_vars)
    let ?related = "fst (related_callbacks onStream ?s0 (fst (getRelatedQuestions env ?query (texts ?s0))))"
    from eq have body: "body =
        [StreamResponse [(''status'', JString ''Generating related questions ...'')],
         GetRelatedQuestions ?query (tool_texts ds)] @ ?related"
      by (simp add: without_tools_eq_Inr texts)
    from False have thinking: "?thinking = []"
      using tool_calls_pos [of ds] by simp
    have "list_all (\<lambda>ev. \<not> is_Search ev)
        (fst (autoAnswer env messages isPro userId profile onStream model src))"
      unfolding trace thinking body by (simp add: loop_and_callbacks_search_nothing)
    moreover have "\<exists>related_sent answer imgs vids related.
        fst (autoAnswer env messages isPro userId profile onStream model src)
          = StreamText (streamText_call env messages isPro userId profile model)
            # fst (for_await onStream (initial_vars ?query src) ds)
            @ [StreamResponse [(''status'', JString ''Generating related questions ...'')],
               GetRelatedQuestions ?query (tool_texts ds)]
            @ related_sent
            @ [IncSearchCount userId,
               SaveMessages userId messages answer (tool_texts ds) imgs vids related]
            @ call_onStream onStream Null True"
      unfolding trace thinking body
      by (intro exI [of _ ?related] exI [of _ "fullAnswer s2"] exI [of _ "images s2"]
          exI [of _ "videos s2"] exI [of _ "fullRelated s2"]) (simp add: saved)
    ultimately show ?thesis using False by simp
  qed
qed

theorem completed_run_order_witness:
  "snd (autoAnswer
          (demo_env [Tool_call, Tool_result ''getInformation'' ''q2'' [TextSource ''t''] [], Text_delta ''x'']
             [OnMessage ''ans''])
          [demo_message] False ''u1'' None True ''gpt'' Cat_ALL) = Inr Completed
   \<and> streamText
       (demo_env [Tool_call, Tool_result ''getInformation'' ''q2'' [TextSource ''t''] [], Text_delta ''x'']
          [OnMessage ''ans''])
       (streamText_call
          (demo_env [Tool_call, Tool_result ''getInformation'' ''q2'' [TextSource ''t''] [], Text_delta ''x'']
             [OnMessage ''ans''])
          [demo_message] False ''u1'' None ''gpt'')
     = Inr ([Tool_call, Tool_result ''getInformation'' ''q2'' [TextSource ''t''] [], Text_delta ''x''], None)
   \<and> Tool_call \<in> set [Tool_call, Tool_result ''getInformation'' ''q2'' [TextSource ''t''] [], Text_delta ''x'']
   \<and> (\<exists>q before answering related_sent answer imgs vids related rest.
         fst (autoAnswer
                (demo_env
                   [Tool_call, Tool_result ''getInformation'' ''q2'' [TextSource ''t''] [], Text_delta ''x'']
                   [OnMessage ''ans''])
                [demo_message] False ''u1'' None True ''gpt'' Cat_ALL)
           = before
             @ [Search Cat_IMAGES q, Search Cat_VIDEOS q]
             @ answering
             @ [GetRelatedQuestions (content (last [demo_message]))
                  (tool_texts
                     [Tool_call, Tool_result ''getInformation'' ''q2'' [TextSource ''t''] [],
                      Text_delta ''x''])]
             @ related_sent
             @ [StreamResponse [(''images'', JImages imgs)],
                StreamResponse [(''videos'', JVideos vids)],
                IncSearchCount ''u1'',
                SaveMessages ''u1'' [demo_message] answer
                  (tool_texts
                     [Tool_call, Tool_result ''getInformation'' ''q2'' [TextSource ''t''] [],
                      Text_delta ''x''])
                  imgs vids related]
             @ rest)"
proof -
  let ?env = "demo_env
      [Tool_call, Tool_result ''getInformation'' ''q2'' [TextSource ''t''] [], Text_delta ''x'']
      [OnMessage ''ans'']"
  let ?ds = "[Tool_call, Tool_result ''getInformation'' ''q2'' [TextSource ''t''] [], Text_delta ''x'']"
  have completed: "snd (autoAnswer ?env [demo_message] False ''u1'' None True ''gpt'' Cat_ALL)
      = Inr Completed"
    by (simp add: demo_run_tools)
  have stream: "streamText ?env (streamText_call ?env [demo_message] False ''u1'' None ''gpt'')
      = Inr (?ds, None)"
    by (simp add: demo_env_def)
  have tool: "Tool_call \<in> set ?ds"
    by simp
  from completed_run_order [OF completed stream] tool
  obtain q before answering related_sent answer imgs vids related where
    "fst (autoAnswer ?env [demo_message] False ''u1'' None True ''gpt'' Cat_ALL)
       = (StreamText (streamText_call ?env [demo_message] False ''u1'' None ''gpt'')
          # fst (for_await True (initial_vars (content (last [demo_message])) Cat_ALL) ?ds)
          @ before)
         @ [Search Cat_IMAGES q, Search Cat_VIDEOS q]
         @ answering
         @ [GetRelatedQuestions (content (last [demo_message])) (tool_texts ?ds)]
         @ related_sent
         @ [StreamResponse [(''images'', JImages imgs)],
            StreamResponse [(''videos'', JVideos vids)],
            IncSearchCount ''u1'',
            SaveMessages ''u1'' [demo_message] answer (tool_texts ?ds) imgs vids related]
         @ call_onStream True Null True"
    by auto
  with completed stream tool show ?thesis by blast
qed

text \<open>
  C2 as stated fails: when the model makes no tool call, the call runs to its end and
  saves the transcript without any image or video search.
\<close>

theorem fetches_before_saving_counterexample:
  "snd (autoAnswer (demo_env [Text_delta ''Hi'', Text_delta '' there''] []) [demo_message] False ''u1''
          None True ''gpt'' Cat_ALL) = Inr Completed
   \<and> SaveMessages ''u1'' [demo_message] ''Hi there'' [] [] [] ''What next?''
       \<in> set (fst (autoAnswer (demo_env [Text_delta ''Hi'', Text_delta '' there''] []) [demo_message]
                    False ''u1'' None True ''gpt'' Cat_ALL))
   \<and> filter is_Search
        (fst (autoAnswer (demo_env [Text_delta ''Hi'', Text_delta '' there''] []) [demo_message]
                False ''u1'' None True ''gpt'' Cat_ALL)) = []"
  by (simp add: demo_run_plain)

subsection \<open>Errors that are thrown and errors that are reported\<close>




subsection \<open>An error part in the stream\<close>

text \<open>
  C4 says that after an error the call returns early and does not save. The code
  does not do so when the stream delivers an \<open>error\<close> part and the model made no tool
  call: the loop sets \<open>hasError\<close>, reports the error and calls \<open>onStream(null, true)\<close>,
  but \<open>hasError\<close> is read only in the branch with tool calls. The call goes on: it
  generates related questions, increments the search count, calls \<open>saveMessages\<close> and
  calls \<open>onStream(null, true)\<close> a second time.
\<close>

theorem stream_error_without_tools_still_saves:
  "autoAnswer (demo_env [Error_part (Err ''boom'')] []) [demo_message] False ''u1'' None True ''gpt''
       Cat_ALL
     = ([StreamText
          \<lparr>opt_model = ''gpt'', opt_system = ''Profile: undefined. History: hello.'',
           opt_messages = [\<lparr>msg_role = ''user'', msg_content = [TextPart ''hello'']\<rparr>],
           opt_maxTokens = 1024,
           opt_tools =
             [(''getInformation'',
               \<lparr>description = ''get information from internet to answer user questions.'',
                parameter = ''question'', execute = Exec_searchRelevantContent ''u1''\<rparr>),
              (''accessWebPage'',
               \<lparr>description = ''access a webpage or url and return the content.'',
                parameter = ''url'', execute = Exec_accessWebPage\<rparr>)]\<rparr>,
         OnStream (JSON_stringify [(''error'', JError (Err ''boom''))]) False,
         OnStream Null True,
         LogError (Error_String (Err ''boom'')) ''llm-auto-openai'',
         StreamResponse [(''status'', JString ''Generating related questions ...'')],
         GetRelatedQuestions ''hello'' [],
         OnStream (JSON_stringify [(''related'', JString ''What '')]) False,
         OnStream (JSON_stringify [(''related'', JString ''next?'')]) False,
         IncSearchCount ''u1'',
         SaveMessages ''u1'' [demo_message] [] [] [] [] ''What next?'',
         OnStream Null True],
        Inr Completed)"
  by (simp add: run_defs)

subsection \<open>The tools of the model call\<close>

text \<open>
  C5. Whenever \<open>autoAnswer\<close> calls the language model, the call offers exactly two
  tools: \<open>getInformation\<close>, which runs \<open>searchRelevantContent\<close>, and \<open>accessWebPage\<close>,
  which runs \<open>accessWebPage\<close>. On a list of messages that is not empty this call is the
  first effect.
\<close>

theorem streamText_offers_two_tools:
  "(\<forall>options. StreamText options
        \<in> set (fst (autoAnswer env messages isPro userId profile onStream model src)) \<longrightarrow>
      map fst (opt_tools options) = [''getInformation'', ''accessWebPage''] \<and>
      map (\<lambda>named. execute (snd named)) (opt_tools options)
        = [Exec_searchRelevantContent userId, Exec_accessWebPage])
   \<and> (messages \<noteq> [] \<longrightarrow>
        (\<exists>options rest. fst (autoAnswer env messages isPro userId profile onStream model src)
           = StreamText options # rest))"
proof (intro conjI allI impI)
  fix options
  assume "StreamText options \<in> set (fst (autoAnswer env messages isPro userId profile onStream model src))"
  then have "options = streamText_call env messages isPro userId profile model"
    by (cases rule: autoAnswer_effects) simp_all
  then show "map fst (opt_tools options) = [''getInformation'', ''accessWebPage'']"
    and "map (\<lambda>named. execute (snd named)) (opt_tools options)
        = [Exec_searchRelevantContent userId, Exec_accessWebPage]"
    by (simp_all add: streamText_call_def Let_def)
next
  assume "messages \<noteq> []"
  then show "\<exists>options rest. fst (autoAnswer env messages isPro userId profile onStream model src)
           = StreamText options # rest"
    by (simp add: fst_autoAnswer fst_autoAnswer_try)
qed

theorem streamText_offers_two_tools_witness:
  "StreamText
     \<lparr>opt_model = ''gpt'', opt_system = ''Profile: undefined. History: hello.'',
      opt_messages = [\<lparr>msg_role = ''user'', msg_content = [TextPart ''hello'']\<rparr>],
      opt_maxTokens = 1024,
      opt_tools =
        [(''getInformation'',
          \<lparr>description = ''get information from internet to answer user questions.'',
           parameter = ''question'', execute = Exec_searchRelevantContent ''u1''\<rparr>),
         (''accessWebPage'',
          \<lparr>description = ''access a webpage or url and return the content.'',
           parameter = ''url'', execute = Exec_accessWebPage\<rparr>)]\<rparr>
     \<in> set (fst (autoAnswer (demo_env [Text_delta ''Hi'', Text_delta '' there''] []) [demo_message]
                  False ''u1'' None True ''gpt'' Cat_ALL))
   \<and> [demo_message] \<noteq> []
   \<and> (\<exists>options rest.
         fst (autoAnswer (demo_env [Text_delta ''Hi'', Text_delta '' there''] []) [demo_message]
                False ''u1'' None True ''gpt'' Cat_ALL) = StreamText options # rest)"
  using streamText_offers_two_tools [of "demo_env [Text_delta ''Hi'', Text_delta '' there''] []"
      "[demo_message]" False "''u1''" None True "''gpt''" Cat_ALL]
  by (simp add: demo_run_plain)

subsection \<open>The user messages and the system prompt\<close>

text \<open>
  C6. On a list of messages that is not empty, the first effect is the call of the
  language model, and the user messages of that call are one message of role \<open>user\<close>
  built from the last message alone: a text part, then one image part for each
  attachment of the last message or, when it has none, for each image address extracted
  from its text (the text then has these addresses replaced). Two lists with the same
  last message give the same user messages. The system prompt is
  \<open>util.format(AutoAnswerPrompt, profile, history)\<close> with the history of \<open>getHistory\<close>:
  for a template whose only specifiers are \<open>%s\<close> and \<open>%%\<close>, the history is part of it.
\<close>

theorem user_messages_from_last_message:
  assumes "messages \<noteq> []"
  shows "(\<exists>rest. fst (autoAnswer env messages isPro userId profile onStream model src)
            = StreamText (streamText_call env messages isPro userId profile model) # rest)
   \<and> (let given = (case attachments (last messages) of None \<Rightarrow> [] | Some a \<Rightarrow> a);
           atts = (if given = [] then extractAllImageUrls env (content (last messages)) else given);
           text = (if given = [] \<and> atts \<noteq> []
                   then replaceImageUrl env (content (last messages)) atts
                   else content (last messages))
       in opt_messages (streamText_call env messages isPro userId profile model)
            = [\<lparr>msg_role = ''user'', msg_content = TextPart text # map ImagePart atts\<rparr>])
   \<and> (\<forall>messages' isPro' userId' profile' model'.
          messages' \<noteq> [] \<and> last messages' = last messages \<longrightarrow>
          opt_messages (streamText_call env messages' isPro' userId' profile' model')
            = opt_messages (streamText_call env messages isPro userId profile model))
   \<and> opt_system (streamText_call env messages isPro userId profile model)
        = util_format (AutoAnswerPrompt env) [profile, Some (getHistory env isPro messages)]
   \<and> (only_s_specifiers (AutoAnswerPrompt env) \<longrightarrow>
        sublist (getHistory env isPro messages)
          (opt_system (streamText_call env messages isPro userId profile model)))"
proof (intro conjI allI impI)
  from assms show "\<exists>rest. fst (autoAnswer env messages isPro userId profile onStream model src)
            = StreamText (streamText_call env messages isPro userId profile model) # rest"
    by (simp add: fst_autoAnswer fst_autoAnswer_try)
next
  from assms show "let given = (case attachments (last messages) of None \<Rightarrow> [] | Some a \<Rightarrow> a);
           atts = (if given = [] then extractAllImageUrls env (content (last messages)) else given);
           text = (if given = [] \<and> atts \<noteq> []
                   then replaceImageUrl env (content (last messages)) atts
                   else content (last messages))
       in opt_messages (streamText_call env messages isPro userId profile model)
            = [\<lparr>msg_role = ''user'', msg_content = TextPart text # map ImagePart atts\<rparr>]"
    by (simp add: streamText_call_def createUserMessages_def Let_def hd_drop_last
        attachmentsToParts_map)
next
  fix messages' :: "StoreMessage list" and isPro' userId' profile' model'
  assume "messages' \<noteq> [] \<and> last messages' = last messages"
  with assms show "opt_messages (streamText_call env messages' isPro' userId' profile' model')
            = opt_messages (streamText_call env messages isPro userId profile model)"
    by (simp add: streamText_call_def Let_def hd_drop_last)
next
  show system: "opt_system (streamText_call env messages isPro userId profile model)
        = util_format (AutoAnswerPrompt env) [profile, Some (getHistory env isPro messages)]"
    by (simp add: streamText_call_def Let_def)
  have "sublist (String (Some (getHistory env isPro messages)))
      (util_format (AutoAnswerPrompt env) [profile, Some (getHistory env isPro messages)])"
    by (rule util_format_contains_argument) simp
  then show "sublist (getHistory env isPro messages)
          (opt_system (streamText_call env messages isPro userId profile model))"
    by (simp add: system String_def)
qed

theorem user_messages_from_last_message_witness:
  "[demo_message] \<noteq> []
   \<and> only_s_specifiers (AutoAnswerPrompt (demo_env [] []))
   \<and> getHistory (demo_env [] []) False [demo_message] = ''hello''
   \<and> opt_system (streamText_call (demo_env [] []) [demo_message] False ''u1'' None ''gpt'')
       = ''Profile: undefined. History: hello.''
   \<and> sublist ''hello'' ''Profile: undefined. History: hello.''"
proof -
  have nonempty: "[demo_message] \<noteq> []"
    by simp
  have template: "only_s_specifiers (AutoAnswerPrompt (demo_env [] []))"
    by (simp add: demo_env_def)
  have history: "getHistory (demo_env [] []) False [demo_message] = ''hello''"
    by (simp add: demo_env_def demo_message_def)
  have system: "opt_system (streamText_call (demo_env [] []) [demo_message] False ''u1'' None ''gpt'')
      = ''Profile: undefined. History: hello.''"
    by (simp add: streamText_call_def demo_env_def demo_message_def String_def Let_def)
  from user_messages_from_last_message [OF nonempty, of "demo_env [] []" False "''u1''" None True
      "''gpt''" Cat_ALL] template
  have "sublist (getHistory (demo_env [] []) False [demo_message])
      (opt_system (streamText_call (demo_env [] []) [demo_message] False ''u1'' None ''gpt''))"
    by blast
  then have "sublist ''hello'' ''Profile: undefined. History: hello.''"
    unfolding history system .
  with nonempty template history system show ?thesis
    by blast
qed

subsection \<open>The arguments of the callback\<close>

text \<open>
  C7. Every call of the callback that \<open>autoAnswer\<close> makes itself has one of two shapes:
  \<open>onStream(null, true)\<close>, or \<open>onStream(JSON.stringify({key: value}))\<close> with one key
  out of \<open>status\<close>, \<open>answer\<close>, \<open>error\<close> and \<open>related\<close> and no second argument. So
  \<open>null\<close> only comes with \<open>true\<close>. The objects that go through \<open>streamResponse\<close>
  carry the keys \<open>sources\<close>, \<open>status\<close>, \<open>clear\<close>, \<open>images\<close> and \<open>videos\<close> only.
\<close>

theorem onStream_arguments:
  assumes "ev \<in> set (fst (autoAnswer env messages isPro userId profile onStream model src))"
  shows "(\<forall>arg fin. ev = OnStream arg fin \<longrightarrow>
            (arg = Null \<and> fin)
            \<or> (\<not> fin \<and> (\<exists>key val. arg = JSON_stringify [(key, val)]
                  \<and> key \<in> {''status'', ''answer'', ''error'', ''related''})))
       \<and> (\<forall>obj. ev = StreamResponse obj \<longrightarrow>
            obj \<noteq> [] \<and> set (map fst obj) \<subseteq> {''sources'', ''status'', ''clear'', ''images'', ''videos''})"
  using assms by (cases rule: autoAnswer_effects) simp_all

theorem onStream_arguments_witness:
  "OnStream (JSON_stringify [(''answer'', JString ''Hi'')]) False
     \<in> set (fst (autoAnswer (demo_env [Text_delta ''Hi'', Text_delta '' there''] []) [demo_message]
                  False ''u1'' None True ''gpt'' Cat_ALL))
   \<and> (\<exists>key val. JSON_stringify [(''answer'', JString ''Hi'')] = JSON_stringify [(key, val)]
         \<and> key \<in> {''status'', ''answer'', ''error'', ''related''})"
  using onStream_arguments [of "OnStream (JSON_stringify [(''answer'', JString ''Hi'')]) False"
      "demo_env [Text_delta ''Hi'', Text_delta '' there''] []" "[demo_message]" False "''u1''" None True
      "''gpt''" Cat_ALL]
  by (simp add: demo_run_plain)

subsection \<open>The answer that is saved\<close>



subsection \<open>Videos and images\<close>

text \<open>
  C9. When the model made at least one tool call: the videos handed to
  \<open>streamResponse\<close> and to \<open>saveMessages\<close> are the first eight results of the video
  search, so at most eight; and the images handed to them are the images of the tool
  results followed by fetched images whose address starts with \<open>https\<close>.
\<close>

theorem videos_at_most_eight_images_https:
  assumes "streamText env (streamText_call env messages isPro userId profile model) = Inr (ds, r)"
    and "Tool_call \<in> set ds"
    and "ev \<in> set (fst (autoAnswer env messages isPro userId profile onStream model src))"
  shows "(\<forall>vids. ev = StreamResponse [(''videos'', JVideos vids)] \<longrightarrow>
            length vids \<le> 8
            \<and> (\<exists>q found. search env Cat_VIDEOS q = Inr found \<and> vids = take 8 (res_videos found)))
       \<and> (\<forall>imgs. ev = StreamResponse [(''images'', JImages imgs)] \<longrightarrow>
            (\<exists>fetched. imgs = tool_images ds @ fetched
               \<and> (\<forall>img \<in> set fetched. prefix ''https'' (image_url img))))
       \<and> (\<forall>u ms answer ts imgs vids related. ev = SaveMessages u ms answer ts imgs vids related \<longrightarrow>
            length vids \<le> 8
            \<and> (\<exists>q found. search env Cat_VIDEOS q = Inr found \<and> vids = take 8 (res_videos found))
            \<and> (\<exists>fetched. imgs = tool_images ds @ fetched
                 \<and> (\<forall>img \<in> set fetched. prefix ''https'' (image_url img))))"
  using assms(3)
proof (cases rule: autoAnswer_effects)
  case (images ds' q ir)
  with assms(1) show ?thesis by auto
next
  case (videos q vr)
  then show ?thesis by auto
next
  case (save_without_tools ds')
  with assms(1,2) show ?thesis by simp
next
  case (save_with_tools ds' args q ir vr)
  with assms(1) show ?thesis by auto
qed simp_all

theorem videos_at_most_eight_images_https_witness:
  "streamText
       (demo_env [Tool_call, Tool_result ''getInformation'' ''q2'' [TextSource ''t''] [], Text_delta ''x'']
          [OnMessage ''ans''])
       (streamText_call
          (demo_env [Tool_call, Tool_result ''getInformation'' ''q2'' [TextSource ''t''] [], Text_delta ''x'']
             [OnMessage ''ans''])
          [demo_message] False ''u1'' None ''gpt'')
     = Inr ([Tool_call, Tool_result ''getInformation'' ''q2'' [TextSource ''t''] [], Text_delta ''x''], None)
   \<and> Tool_call \<in> set [Tool_call, Tool_result ''getInformation'' ''q2'' [TextSource ''t''] [], Text_delta ''x'']
   \<and> SaveMessages ''u1'' [demo_message] ''ans'' [TextSource ''t'']
         [\<lparr>image_title = ''a'', image_url = ''https://a/1.png''\<rparr>]
         (map VideoSource [''v1'', ''v2'', ''v3'', ''v4'', ''v5'', ''v6'', ''v7'', ''v8''])
         ''What next?''
       \<in> set (fst (autoAnswer
            (demo_env [Tool_call, Tool_result ''getInformation'' ''q2'' [TextSource ''t''] [], Text_delta ''x'']
               [OnMessage ''ans''])
            [demo_message] False ''u1'' None True ''gpt'' Cat_ALL))
   \<and> length (map VideoSource [''v1'', ''v2'', ''v3'', ''v4'', ''v5'', ''v6'', ''v7'', ''v8'']) \<le> 8"
  using videos_at_most_eight_images_https
    [of "demo_env [Tool_call, Tool_result ''getInformation'' ''q2'' [TextSource ''t''] [], Text_delta ''x'']
           [OnMessage ''ans'']"
        "[demo_message]" False "''u1''" None "''gpt''"
        "[Tool_call, Tool_result ''getInformation'' ''q2'' [TextSource ''t''] [], Text_delta ''x'']" None
        "SaveMessages ''u1'' [demo_message] ''ans'' [TextSource ''t'']
           [\<lparr>image_title = ''a'', image_url = ''https://a/1.png''\<rparr>]
           (map VideoSource [''v1'', ''v2'', ''v3'', ''v4'', ''v5'', ''v6'', ''v7'', ''v8''])
           ''What next?''"
        True Cat_ALL]
  by (simp add: demo_run_tools) (simp add: demo_env_def)

subsection \<open>No error reaches the caller\<close>

text \<open>
  C10. \<open>autoAnswer\<close> never throws to its caller: whatever the collaborators do, also
  on an empty list of messages (which ends in the catch block with a \<open>TypeError\<close>), the
  call ends normally; and when a callback is supplied, \<open>onStream(null, true)\<close> is among
  its effects on every path. The callback and \<open>logError\<close> themselves return normally
  here, as everywhere in this theory.
\<close>

theorem autoAnswer_never_throws:
  "(\<exists>r. snd (autoAnswer env messages isPro userId profile onStream model src) = Inr r)
   \<and> (messages = [] \<longrightarrow>
        snd (autoAnswer env messages isPro userId profile onStream model src) = Inr (Caught TypeError))
   \<and> (onStream \<longrightarrow>
        OnStream Null True \<in> set (fst (autoAnswer env messages isPro userId profile onStream model src)))"
proof (intro conjI impI)
  show "\<exists>r. snd (autoAnswer env messages isPro userId profile onStream model src) = Inr r"
    by (simp add: snd_autoAnswer)
next
  assume "messages = []"
  then show "snd (autoAnswer env messages isPro userId profile onStream model src) = Inr (Caught TypeError)"
    by (simp add: snd_autoAnswer autoAnswer_try_def io_parts)
next
  assume cb: "onStream"
  let ?tried = "autoAnswer_try env messages isPro userId profile onStream model src"
  let ?trace = "fst (autoAnswer env messages isPro userId profile onStream model src)"
  show "OnStream Null True \<in> set ?trace"
  proof (cases "snd ?tried")
    case (Inl e)
    with cb show ?thesis by (simp add: fst_autoAnswer call_onStream_def)
  next
    case (Inr r)
    then have run: "?tried = (?trace, Inr r)"
      by (simp add: fst_autoAnswer prod_eq_iff)
    then obtain ds t' where ne: "messages \<noteq> []"
      and after: "after_stream env messages isPro userId profile onStream model
             (content (last messages)) (getHistory env isPro messages)
             (snd (for_await onStream (initial_vars (content (last messages)) src) ds)) = (t', Inr r)"
      and trace: "?trace = StreamText (streamText_call env messages isPro userId profile model)
              # fst (for_await onStream (initial_vars (content (last messages)) src) ds) @ t'"
      unfolding autoAnswer_try_eq_Inr by blast
    show ?thesis
    proof (cases r)
      case Completed
      from after_stream_Completed [OF after [unfolded Completed]] cb
      have "OnStream Null True \<in> set t'"
        by (auto simp: call_onStream_def)
      with trace show ?thesis by simp
    next
      case Returned_early
      let ?s0 = "snd (for_await onStream (initial_vars (content (last messages)) src) ds)"
      let ?s1 = "if 1 < toolCallCount ?s0 then ?s0\<lparr>rewriteQuery := content (last messages)\<rparr> else ?s0"
      from after_stream_Returned_early [OF after [unfolded Returned_early]] obtain body
        where body: "with_tools env isPro profile onStream model (content (last messages))
                       (getHistory env isPro messages) ?s1 = (body, Inr None)"
          and t': "set body \<subseteq> set t'"
        by auto
      from with_tools_None [OF body] obtain cs
        where disj: "hasError ?s1 \<or> reports_error cs"
          and cbs: "set (fst (answer_callbacks onStream (?s1\<lparr>fullAnswer := []\<rparr>) cs)) \<subseteq> set body"
        by auto
      from disj show ?thesis
      proof
        assume "hasError ?s1"
        then have "hasError ?s0" by (simp split: if_splits)
        then obtain e where "Error_part e \<in> set ds" by (auto simp: loop_vars)
        from for_await_reports(2) [OF cb this] trace show ?thesis by simp
      next
        assume "reports_error cs"
        then obtain e where "OnError e \<in> set cs" by (auto simp: reports_error_iff)
        from answer_callbacks_reports(2) [OF cb this] cbs t' trace show ?thesis by auto
      qed
    next
      case (Caught e)
      with Inr autoAnswer_try_not_Caught show ?thesis by blast
    qed
  qed
qed

theorem autoAnswer_never_throws_witness:
  "snd (autoAnswer (demo_env [] []) [] False ''u1'' None True ''gpt'' Cat_ALL) = Inr (Caught TypeError)
   \<and> OnStream Null True
        \<in> set (fst (autoAnswer (demo_env [] []) [] False ''u1'' None True ''gpt'' Cat_ALL))"
  using autoAnswer_never_throws [of "demo_env [] []" "[]" False "''u1''" None True "''gpt''" Cat_ALL]
  by simp

end
